theory Spec2Isabelle
  imports Complex_Main "HOL-Library.Multiset"
begin

section \<open>Strings\<close>

text \<open>
  A Python \<open>str\<close> is a sequence of Unicode code points, and \<open>len\<close> counts code points.
  The alert ticker appends the single code point U+2026, which no 8-bit \<open>char\<close> holds, so
  text is modelled as a list of code points. \<open>ustr\<close> reads an ASCII literal.
\<close>

type_synonym ustr = "nat list"

definition ustr :: "string \<Rightarrow> ustr" where
  "ustr s = map of_char s"

text \<open>\<open>str.isspace\<close>: the code points that \<open>str.strip()\<close> removes.\<close>

definition is_space :: "nat \<Rightarrow> bool" where
  "is_space c \<longleftrightarrow>
     (9 \<le> c \<and> c \<le> 13) \<or> (28 \<le> c \<and> c \<le> 32) \<or> c = 133 \<or> c = 160 \<or> c = 5760 \<or>
     (8192 \<le> c \<and> c \<le> 8202) \<or> c = 8232 \<or> c = 8233 \<or> c = 8239 \<or> c = 8287 \<or> c = 12288"

definition strip :: "ustr \<Rightarrow> ustr" where
  "strip s = rev (dropWhile is_space (rev (dropWhile is_space s)))"

text \<open>\<open>s.split(sep)\<close> for a one-character separator: always at least one part.\<close>

fun split :: "nat \<Rightarrow> ustr \<Rightarrow> ustr list" where
  "split sep [] = [[]]"
| "split sep (c # cs) =
     (if c = sep then [] # split sep cs
      else (case split sep cs of [] \<Rightarrow> [[c]] | p # ps \<Rightarrow> (c # p) # ps))"

text \<open>\<open>sep.join(parts)\<close>.\<close>

fun join :: "ustr \<Rightarrow> ustr list \<Rightarrow> ustr" where
  "join sep [] = []"
| "join sep [x] = x"
| "join sep (x # y # ys) = x @ sep @ join sep (y # ys)"

text \<open>Decimal rendering of an integer, as \<open>str(n)\<close> and the f-string \<open>{n}\<close> give it.\<close>

fun dec :: "nat \<Rightarrow> ustr" where
  "dec n = (if n < 10 then [48 + n] else dec (n div 10) @ [48 + n mod 10])"

declare dec.simps [simp del]

definition str_int :: "int \<Rightarrow> ustr" where
  "str_int i = (if i < 0 then 45 # dec (nat (- i)) else dec (nat i))"

text \<open>
  Python exceptions that the modelled code can raise. \<open>TransportError\<close> stands for what
  \<open>fetch_bytes\<close> raises (connection failure, timeout, \<open>raise_for_status\<close>).
\<close>

datatype error =
  TransportError | BadZipFile | ParserError | DecodeError | ValueError | AttributeError

section \<open>Data frames\<close>

text \<open>
  \<open>pd.read_csv\<close> gives every column a dtype: \<open>int64\<close> when every field is an integer,
  \<open>float64\<close> when the fields are numbers and some are blank or fractional, \<open>object\<close>
  when some field is a text. A cell is what the frame holds in one place: a missing
  value, a text, an integer or a float, so \<open>01111\<close> in an integer column is the integer
  1111 and \<open>30\<close> beside a blank is the float 30.0. A float is given by its value; the
  infinities and the negative zero are left out. In a frame that \<open>read_csv\<close> returns,
  all cells of a column agree with the dtype of the column.
\<close>

datatype cell = NaN | Str ustr | Integer int | Float rat

datatype dtype = Int64 | Float64 | Object

definition is_str :: "cell \<Rightarrow> bool" where
  "is_str c = (case c of Str _ \<Rightarrow> True | _ \<Rightarrow> False)"

definition is_int :: "cell \<Rightarrow> bool" where
  "is_int c = (case c of Integer _ \<Rightarrow> True | _ \<Rightarrow> False)"

text \<open>
  The dtype of a column, from its cells: a column without rows is \<open>object\<close> (a file with
  a header only), a column of missing values is \<open>float64\<close>. The unsigned dtype that
  \<open>read_csv\<close> uses for integers from \<open>2^63\<close> on counts as \<open>Int64\<close>: the two behave alike
  in all that follows but the cast \<open>astype(int)\<close>, which wraps.
\<close>

definition dtype_of :: "cell list \<Rightarrow> dtype" where
  "dtype_of cs =
     (if cs = [] \<or> list_ex is_str cs then Object
      else if list_all is_int cs then Int64
      else Float64)"

text \<open>
  The tables of the static bundle, with the columns the code reads; other columns
  are not modelled, and the columns are taken to exist where the code does not test
  for them. \<open>trips.txt\<close> may lack the \<open>service_id\<close> column and \<open>calendar.txt\<close> a weekday
  column: the code tests for both, so the tables record which of these they have.
\<close>

record stop =
  stop_id :: cell
  stop_name :: cell

record stop_time =
  st_trip_id :: cell
  st_stop_id :: cell
  arrival_time :: cell
  departure_time :: cell

record trip =
  t_trip_id :: cell
  t_route_id :: cell
  t_service_id :: cell

record trips_table =
  has_service_id :: bool
  trip_rows :: "trip list"

record route =
  r_route_id :: cell
  route_short_name :: cell
  route_long_name :: cell

record calendar_rule =
  c_service_id :: cell
  start_date :: cell
  end_date :: cell
  flag :: "string \<Rightarrow> cell"

record calendar_table =
  columns :: "string list"
  rules :: "calendar_rule list"

record calendar_date =
  cd_service_id :: cell
  cd_date :: cell
  exception_type :: cell

text \<open>
  The rows of the working frame of the arrival query: a stop time with its \<open>dep_sec\<close>,
  then with the columns the merge with \<open>trips\<close> adds, then with those the merge with
  \<open>routes\<close> adds.
\<close>

record upcoming =
  trip_id :: cell
  dep_sec :: int

record joined = upcoming +
  route_id :: cell
  service_id :: cell

record named = joined +
  name_short :: cell
  name_long :: cell

section \<open>Library functions\<close>

text \<open>
  What the code takes from Python, numpy and pandas and what depends on the Unicode
  database, on floating point or on the sorting algorithm is a parameter of the model,
  about which the theorems assume nothing unless they say so:
  \<^item> \<open>str_lower\<close> is \<open>str.lower()\<close>;
  \<^item> \<open>int_str\<close> is \<open>int(s)\<close> on a text, \<open>None\<close> when it raises \<open>ValueError\<close>;
  \<^item> \<open>float_str\<close> is \<open>str(x)\<close> of a float, as \<open>astype(str)\<close> renders it;
  \<^item> \<open>float_of_int\<close> is the cast of an integer to \<open>float64\<close>;
  \<^item> \<open>int_of_float\<close> is the cast of a float to \<open>int64\<close>;
  \<^item> \<open>to_numeric\<close> is \<open>pd.to_numeric(errors="coerce")\<close> on a text, \<open>None\<close> for NaN;
  \<^item> \<open>sort_values\<close> is \<open>upcoming.sort_values("dep_sec")\<close>: pandas sorts with quicksort
    by default, which fixes no order among rows of equal \<open>dep_sec\<close>.
\<close>

record lib =
  str_lower :: "ustr \<Rightarrow> ustr"
  int_str :: "ustr \<Rightarrow> int option"
  float_str :: "rat \<Rightarrow> ustr"
  float_of_int :: "int \<Rightarrow> rat"
  int_of_float :: "rat \<Rightarrow> int"
  to_numeric :: "ustr \<Rightarrow> rat option"
  sort_values :: "named list \<Rightarrow> named list"

text \<open>
  \<open>astype(str)\<close> on a column and \<open>str(...)\<close> on a value of a row: a missing cell is
  rendered \<open>nan\<close>, an integer in decimal, a float by \<open>float_str\<close>.
\<close>

definition astype_str :: "lib \<Rightarrow> cell \<Rightarrow> ustr" where
  "astype_str l c =
     (case c of NaN \<Rightarrow> ustr ''nan'' | Str s \<Rightarrow> s | Integer i \<Rightarrow> str_int i
      | Float x \<Rightarrow> float_str l x)"

text \<open>The truth value of a cell in \<open>x or default\<close>: NaN is true, zero and the empty text are false.\<close>

definition truthy :: "cell \<Rightarrow> bool" where
  "truthy c = (case c of NaN \<Rightarrow> True | Str s \<Rightarrow> s \<noteq> [] | Integer i \<Rightarrow> i \<noteq> 0 | Float x \<Rightarrow> x \<noteq> 0)"

text \<open>
  \<open>pd.to_numeric(col, errors="coerce").fillna(0).astype(int)\<close> on one cell: a missing or
  non-numeric cell is 0, an integer is wrapped into the range of \<open>int64\<close>, a float is
  cast.
\<close>

definition wrap64 :: "int \<Rightarrow> int" where
  "wrap64 i = (i + 2 ^ 63) mod 2 ^ 64 - 2 ^ 63"

definition to_int :: "lib \<Rightarrow> cell \<Rightarrow> int" where
  "to_int l c =
     (case c of NaN \<Rightarrow> 0 | Integer i \<Rightarrow> wrap64 i | Float x \<Rightarrow> int_of_float l x
      | Str s \<Rightarrow> (case to_numeric l s of None \<Rightarrow> 0 | Some x \<Rightarrow> int_of_float l x))"

section \<open>The cache\<close>

text \<open>
  The realtime messages. A selector of \<open>informed_entity\<close> is given by its \<open>route_id\<close>
  (the empty string when unset); a translated string by the texts of its translations,
  in order (none when the field is unset). An entity may carry no alert.
\<close>

record alert =
  informed_entity :: "ustr list"
  header_text :: "ustr list"
  description_text :: "ustr list"

record feed_entity =
  alert :: "alert option"

type_synonym feed_message = "feed_entity list"

record cache =
  gtfs_loaded_at :: rat
  stops :: "stop list option"
  stop_times :: "stop_time list option"
  trips :: "trips_table option"
  routes :: "route list option"
  calendar :: "calendar_table option"
  calendar_dates :: "calendar_date list option"
  rt_loaded_at :: rat
  trip_updates :: "feed_message option"
  alerts :: "feed_message option"

text \<open>\<open>cache = Cache()\<close>: the state of a fresh process.\<close>

definition Cache :: cache where
  "Cache = \<lparr>gtfs_loaded_at = 0, stops = None, stop_times = None, trips = None, routes = None,
     calendar = None, calendar_dates = None, rt_loaded_at = 0, trip_updates = None,
     alerts = None\<rparr>"

section \<open>Alert query\<close>

text \<open>
  \<open>_route_ids_for_short_name\<close>: \<open>None\<close> means that no filter applies; a set, possibly
  empty, is the filter.
\<close>

definition route_ids_for_short_name ::
  "lib \<Rightarrow> route list option \<Rightarrow> ustr option \<Rightarrow> ustr set option" where
  "route_ids_for_short_name l rts short_name =
     (case short_name of
        None \<Rightarrow> None
      | Some name \<Rightarrow>
          (case rts of
             None \<Rightarrow> None
           | Some rs \<Rightarrow>
               if name = [] \<or> rs = [] then None
               else
                 let sn = str_lower l (strip name) in
                 if sn = [] then None
                 else
                   let matched = filter (\<lambda>r. str_lower l (strip (astype_str l (route_short_name r))) = sn) rs;
                       matched = (if matched = []
                                  then filter (\<lambda>r. str_lower l (astype_str l (r_route_id r)) = sn) rs
                                  else matched)
                   in if matched = [] then Some {}
                      else Some (set (map (\<lambda>r. astype_str l (r_route_id r)) matched))))"

definition alert_applies_to_routes :: "alert \<Rightarrow> ustr set option \<Rightarrow> bool" where
  "alert_applies_to_routes a allowed_route_ids =
     (case allowed_route_ids of
        None \<Rightarrow> True
      | Some allowed \<Rightarrow>
          list_ex (\<lambda>ent. let rid = strip ent in rid \<noteq> [] \<and> rid \<in> allowed) (informed_entity a))"

text \<open>The text that one alert contributes: the body of the loop up to \<open>if txt\<close>.\<close>

definition alert_txt :: "alert \<Rightarrow> ustr" where
  "alert_txt a =
     (case header_text a of
        h # _ \<Rightarrow> strip h
      | [] \<Rightarrow> (case description_text a of d # _ \<Rightarrow> strip d | [] \<Rightarrow> []))"

text \<open>The loop over \<open>cache.alerts.entity\<close> that collects \<open>msgs\<close>.\<close>

fun alert_msgs :: "ustr set option \<Rightarrow> feed_message \<Rightarrow> ustr list" where
  "alert_msgs allowed [] = []"
| "alert_msgs allowed (ent # ents) =
     (case alert ent of
        None \<Rightarrow> alert_msgs allowed ents
      | Some a \<Rightarrow>
          if \<not> alert_applies_to_routes a allowed then alert_msgs allowed ents
          else let txt = alert_txt a
               in if txt \<noteq> [] then txt # alert_msgs allowed ents else alert_msgs allowed ents)"

text \<open>
  \<open>out[:max_len]\<close>: a negative bound counts from the end of the string.
\<close>

definition slice_to :: "int \<Rightarrow> ustr \<Rightarrow> ustr" where
  "slice_to n s = (if n < 0 then take (nat (int (length s) + n)) s else take (nat n) s)"

definition ellipsis :: nat where
  "ellipsis = 8230"

definition get_alert_text :: "lib \<Rightarrow> cache \<Rightarrow> ustr option \<Rightarrow> int \<Rightarrow> ustr" where
  "get_alert_text l c route_filter max_len =
     (case alerts c of
        None \<Rightarrow> ustr ''No alerts''
      | Some feed \<Rightarrow>
          let allowed_route_ids = route_ids_for_short_name l (routes c) route_filter;
              msgs = alert_msgs allowed_route_ids feed
          in if msgs = [] then ustr ''No alerts''
             else let out = join (ustr '' | '') msgs
                  in slice_to max_len out @ (if int (length out) > max_len then [ellipsis] else []))"

section \<open>Service calendar\<close>

text \<open>
  What \<open>datetime.now(PACIFIC)\<close> returns: the local date with its day of the week
  (\<open>date.weekday()\<close>, Monday first) and the time of day.
\<close>

datatype weekday = Monday | Tuesday | Wednesday | Thursday | Friday | Saturday | Sunday

record local_now =
  year :: int
  month :: int
  day :: int
  weekday :: weekday
  hour :: int
  minute :: int
  second :: int

fun weekday_col :: "weekday \<Rightarrow> string" where
  "weekday_col Monday = ''monday''"
| "weekday_col Tuesday = ''tuesday''"
| "weekday_col Wednesday = ''wednesday''"
| "weekday_col Thursday = ''thursday''"
| "weekday_col Friday = ''friday''"
| "weekday_col Saturday = ''saturday''"
| "weekday_col Sunday = ''sunday''"

text \<open>\<open>int(today.strftime("%Y%m%d"))\<close>.\<close>

definition today_int :: "local_now \<Rightarrow> int" where
  "today_int d = year d * 10000 + month d * 100 + day d"

text \<open>The first block of \<open>active_service_ids_for_today\<close>: what \<open>calendar.txt\<close> contributes.\<close>

definition in_range_rules :: "lib \<Rightarrow> calendar_table \<Rightarrow> local_now \<Rightarrow> calendar_rule list" where
  "in_range_rules l cal d =
     (let wdcol = weekday_col (weekday d);
          in_range = filter (\<lambda>r. to_int l (start_date r) \<le> today_int d \<and>
                                   to_int l (end_date r) \<ge> today_int d) (rules cal)
      in if wdcol \<in> set (columns cal)
         then filter (\<lambda>r. to_int l (flag r wdcol) = 1) in_range
         else in_range)"

definition calendar_services :: "lib \<Rightarrow> calendar_table option \<Rightarrow> local_now \<Rightarrow> ustr set" where
  "calendar_services l cal d =
     (case cal of
        None \<Rightarrow> {}
      | Some t \<Rightarrow>
          if rules t = [] then {}
          else set (map (\<lambda>r. astype_str l (c_service_id r)) (in_range_rules l t d)))"

text \<open>The loop over \<open>today_rows\<close> of \<open>calendar_dates.txt\<close>, in row order.\<close>

fun apply_exceptions :: "lib \<Rightarrow> calendar_date list \<Rightarrow> ustr set \<Rightarrow> ustr set" where
  "apply_exceptions l [] active = active"
| "apply_exceptions l (r # rs) active =
     (let sid = astype_str l (cd_service_id r);
          et = to_int l (exception_type r)
      in if et = 1 then apply_exceptions l rs (insert sid active)
         else if et = 2 then apply_exceptions l rs (active - {sid})
         else apply_exceptions l rs active)"

definition today_rows :: "lib \<Rightarrow> calendar_date list \<Rightarrow> local_now \<Rightarrow> calendar_date list" where
  "today_rows l cd d = filter (\<lambda>r. to_int l (cd_date r) = today_int d) cd"

definition active_service_ids_for_today :: "lib \<Rightarrow> cache \<Rightarrow> local_now \<Rightarrow> ustr set" where
  "active_service_ids_for_today l c d =
     (let active = calendar_services l (calendar c) d
      in case calendar_dates c of
           None \<Rightarrow> active
         | Some cald \<Rightarrow>
             if cald = [] then active else apply_exceptions l (today_rows l cald d) active)"

section \<open>Arrival query\<close>

text \<open>
  \<open>_gtfs_time_to_seconds\<close>: a text is split at the colons, and anything but three
  integers raises \<open>ValueError\<close>; a number has no \<open>split\<close> and raises \<open>AttributeError\<close>.
\<close>

definition gtfs_time_to_seconds :: "lib \<Rightarrow> cell \<Rightarrow> error + int" where
  "gtfs_time_to_seconds l t =
     (case t of
        Str s \<Rightarrow>
          (case split 58 s of
             [h, m, sc] \<Rightarrow>
               (case int_str l h of
                  None \<Rightarrow> Inl ValueError
                | Some hh \<Rightarrow>
                    (case int_str l m of
                       None \<Rightarrow> Inl ValueError
                     | Some mm \<Rightarrow>
                         (case int_str l sc of
                            None \<Rightarrow> Inl ValueError
                          | Some ss \<Rightarrow> Inr (hh * 3600 + mm * 60 + ss))))
           | _ \<Rightarrow> Inl ValueError)
      | _ \<Rightarrow> Inl AttributeError)"

definition now_service_seconds :: "local_now \<Rightarrow> int" where
  "now_service_seconds d = hour d * 3600 + minute d * 60 + second d"

text \<open>\<open>departure_time.fillna(arrival_time)\<close>, and \<open>dropna(subset=["dep"])\<close>.\<close>

definition dep :: "stop_time \<Rightarrow> cell" where
  "dep r = (case departure_time r of NaN \<Rightarrow> arrival_time r | t \<Rightarrow> t)"

definition dropna :: "stop_time list \<Rightarrow> stop_time list" where
  "dropna st2 = filter (\<lambda>r. dep r \<noteq> NaN) st2"

text \<open>
  \<open>st2["dep"].map(_gtfs_time_to_seconds)\<close>, row by row: the first cell that does not
  convert raises.
\<close>

fun with_dep_sec :: "lib \<Rightarrow> stop_time list \<Rightarrow> error + upcoming list" where
  "with_dep_sec l [] = Inr []"
| "with_dep_sec l (r # rs) =
     (case gtfs_time_to_seconds l (dep r) of
        Inl e \<Rightarrow> Inl e
      | Inr s \<Rightarrow>
          (case with_dep_sec l rs of
             Inl e \<Rightarrow> Inl e
           | Inr ys \<Rightarrow> Inr (\<lparr>trip_id = st_trip_id r, dep_sec = s\<rparr> # ys)))"

text \<open>The window: four hours from now, else everything from now on.\<close>

definition upcoming_rows :: "int \<Rightarrow> upcoming list \<Rightarrow> upcoming list" where
  "upcoming_rows now_sec st2 =
     (let horizon = now_sec + 4 * 3600;
          upcoming = filter (\<lambda>r. dep_sec r \<ge> now_sec \<and> dep_sec r \<le> horizon) st2
      in if upcoming = [] then filter (\<lambda>r. dep_sec r \<ge> now_sec) st2 else upcoming)"

text \<open>
  The check that \<open>merge\<close> makes on the two key columns before it joins. Keys of one
  dtype pass, and so do an integer and a float column. A numeric column against an
  \<open>object\<close> column that holds a text raises \<open>ValueError\<close>; against an \<open>object\<close> column of
  missing values only it passes. When one side has no rows nothing is checked.
\<close>

definition merge_keys_ok :: "dtype \<Rightarrow> cell list \<Rightarrow> dtype \<Rightarrow> cell list \<Rightarrow> bool" where
  "merge_keys_ok ld lk rd rk \<longleftrightarrow>
     lk = [] \<or> rk = [] \<or> ld = rd \<or> (ld \<noteq> Object \<and> rd \<noteq> Object) \<or>
     (ld = Object \<and> \<not> list_ex is_str lk) \<or> (rd = Object \<and> \<not> list_ex is_str rk)"

text \<open>
  Equal keys: missing keys match each other, texts and numbers match their equals,
  and an integer matches a float through the cast of the integer.
\<close>

definition keq :: "lib \<Rightarrow> cell \<Rightarrow> cell \<Rightarrow> bool" where
  "keq l a b =
     (case (a, b) of
        (NaN, NaN) \<Rightarrow> True
      | (Str x, Str y) \<Rightarrow> x = y
      | (Integer x, Integer y) \<Rightarrow> x = y
      | (Float x, Float y) \<Rightarrow> x = y
      | (Integer x, Float y) \<Rightarrow> float_of_int l x = y
      | (Float x, Integer y) \<Rightarrow> x = float_of_int l y
      | _ \<Rightarrow> False)"

text \<open>
  A left merge fills the columns of the right frame with NaN where a left row has no
  match, and an integer column that gets a NaN becomes a float column as a whole.
\<close>

definition upcast_dtype :: "bool \<Rightarrow> dtype \<Rightarrow> dtype" where
  "upcast_dtype missing dt = (if missing \<and> dt = Int64 then Float64 else dt)"

definition upcast :: "lib \<Rightarrow> bool \<Rightarrow> dtype \<Rightarrow> cell \<Rightarrow> cell" where
  "upcast l missing dt c =
     (if missing \<and> dt = Int64 then (case c of Integer i \<Rightarrow> Float (float_of_int l i) | _ \<Rightarrow> c)
      else c)"

text \<open>
  \<open>upcoming.merge(trips[needed_cols], on="trip_id", how="left")\<close>: the rows of the left
  frame in order, each once per matching trip in the order of \<open>trips\<close>, or once with
  missing cells when no trip matches. \<open>ld\<close> is the dtype of \<open>trip_id\<close> in \<open>stop_times\<close>.
  The result comes with the dtype of its \<open>route_id\<close> column, the key of the next merge.
\<close>

definition merge_trips ::
  "lib \<Rightarrow> dtype \<Rightarrow> trip list \<Rightarrow> upcoming list \<Rightarrow> error + dtype \<times> joined list" where
  "merge_trips l ld ts up =
     (if \<not> merge_keys_ok ld (map trip_id up) (dtype_of (map t_trip_id ts)) (map t_trip_id ts)
      then Inl ValueError
      else
        let missing = list_ex (\<lambda>u. list_all (\<lambda>t. \<not> keq l (trip_id u) (t_trip_id t)) ts) up;
            rd = dtype_of (map t_route_id ts);
            sd = dtype_of (map t_service_id ts)
        in Inr (upcast_dtype missing rd,
             concat (map (\<lambda>u.
               (case filter (\<lambda>t. keq l (trip_id u) (t_trip_id t)) ts of
                  [] \<Rightarrow> [\<lparr>trip_id = trip_id u, dep_sec = dep_sec u, route_id = NaN,
                          service_id = NaN\<rparr>]
                | ms \<Rightarrow> map (\<lambda>t. \<lparr>trip_id = trip_id u, dep_sec = dep_sec u,
                                    route_id = upcast l missing rd (t_route_id t),
                                    service_id = upcast l missing sd (t_service_id t)\<rparr>) ms)) up)))"

text \<open>
  The active-service filter. \<open>has_col\<close> is \<open>"service_id" in upcoming.columns\<close>, which
  holds when \<open>trips\<close> has the column.
\<close>

definition service_filter :: "lib \<Rightarrow> ustr set \<Rightarrow> bool \<Rightarrow> joined list \<Rightarrow> joined list" where
  "service_filter l active_sids has_col up =
     (if active_sids \<noteq> {} \<and> has_col
      then let filtered = filter (\<lambda>r. astype_str l (service_id r) \<in> active_sids) up
           in if filtered \<noteq> [] then filtered else up
      else up)"

text \<open>
  The merge with \<open>routes\<close> on \<open>route_id\<close>; \<open>ld\<close> is the dtype of the \<open>route_id\<close> column
  of the left frame.
\<close>

definition merge_routes ::
  "lib \<Rightarrow> dtype \<Rightarrow> route list \<Rightarrow> joined list \<Rightarrow> error + named list" where
  "merge_routes l ld rs up =
     (if \<not> merge_keys_ok ld (map route_id up) (dtype_of (map r_route_id rs)) (map r_route_id rs)
      then Inl ValueError
      else
        let missing = list_ex (\<lambda>u. list_all (\<lambda>r. \<not> keq l (route_id u) (r_route_id r)) rs) up;
            sd = dtype_of (map route_short_name rs);
            nd = dtype_of (map route_long_name rs)
        in Inr (concat (map (\<lambda>u.
               (case filter (\<lambda>r. keq l (route_id u) (r_route_id r)) rs of
                  [] \<Rightarrow> [\<lparr>trip_id = trip_id u, dep_sec = dep_sec u, route_id = route_id u,
                          service_id = service_id u, name_short = NaN, name_long = NaN\<rparr>]
                | ms \<Rightarrow> map (\<lambda>r. \<lparr>trip_id = trip_id u, dep_sec = dep_sec u,
                                    route_id = route_id u, service_id = service_id u,
                                    name_short = upcast l missing sd (route_short_name r),
                                    name_long = upcast l missing nd (route_long_name r)\<rparr>) ms)) up)))"

text \<open>
  \<open>route_name\<close>. In \<open>str(x or "")\<close> a missing cell is true and is rendered \<open>nan\<close>; zero
  and the empty text are false and give the default.
\<close>

definition or_str :: "lib \<Rightarrow> cell \<Rightarrow> ustr \<Rightarrow> ustr" where
  "or_str l c dflt = (if truthy c then astype_str l c else dflt)"

definition route_name :: "lib \<Rightarrow> named \<Rightarrow> ustr" where
  "route_name l row =
     (let sn = strip (or_str l (name_short row) [])
      in if sn \<noteq> [] then sn
         else let ln = strip (or_str l (name_long row) [])
              in if ln \<noteq> [] then ln else or_str l (route_id row) (ustr ''route?''))"

text \<open>
  The loop that fills \<open>rows\<close>: a row whose \<open>dep_sec\<close> was seen is skipped, another is
  appended, and the loop ends once \<open>len(rows) >= limit\<close>, tested after the append.
\<close>

fun collect :: "int \<Rightarrow> int set \<Rightarrow> named list \<Rightarrow> named list \<Rightarrow> named list" where
  "collect limit seen_dep rows [] = rows"
| "collect limit seen_dep rows (r # rs) =
     (if dep_sec r \<in> seen_dep then collect limit seen_dep rows rs
      else let rows' = rows @ [r]
           in if int (length rows') \<ge> limit then rows'
              else collect limit (insert (dep_sec r) seen_dep) rows' rs)"

text \<open>
  The first occurrences: what the loop \<open>collect\<close> keeps when the limit does not stop it.
\<close>

fun first_seen :: "int set \<Rightarrow> named list \<Rightarrow> named list" where
  "first_seen seen [] = []"
| "first_seen seen (r # rs) =
     (if dep_sec r \<in> seen then first_seen seen rs
      else r # first_seen (insert (dep_sec r) seen) rs)"

definition mins :: "int \<Rightarrow> named \<Rightarrow> int" where
  "mins now_sec r = max 0 ((dep_sec r - now_sec) div 60)"

definition entry :: "lib \<Rightarrow> int \<Rightarrow> named \<Rightarrow> ustr" where
  "entry l now_sec r = route_name l r @ ustr '' '' @ str_int (mins now_sec r)"

text \<open>
  From the merge with \<open>trips\<close> to the frame that is sorted, for the rows the window
  kept: the two merges with the service filter between them.
\<close>

definition merged_frame ::
  "lib \<Rightarrow> ustr set \<Rightarrow> dtype \<Rightarrow> trips_table \<Rightarrow> route list \<Rightarrow> upcoming list \<Rightarrow> error + named list" where
  "merged_frame l active_sids ld tt rs up =
     (case merge_trips l ld (trip_rows tt) up of
        Inl e \<Rightarrow> Inl e
      | Inr (rd, up1) \<Rightarrow>
          merge_routes l rd rs (service_filter l active_sids (has_service_id tt) up1))"

definition next_scheduled_arrivals_for_stop ::
  "lib \<Rightarrow> cache \<Rightarrow> local_now \<Rightarrow> ustr \<Rightarrow> int \<Rightarrow> error + ustr list" where
  "next_scheduled_arrivals_for_stop l c d stop limit =
     (case stop_times c of
        None \<Rightarrow> Inr []
      | Some st \<Rightarrow>
     (case trips c of
        None \<Rightarrow> Inr []
      | Some tt \<Rightarrow>
     (case routes c of
        None \<Rightarrow> Inr []
      | Some rs \<Rightarrow>
          let active_sids = active_service_ids_for_today l c d;
              st2 = filter (\<lambda>r. astype_str l (st_stop_id r) = stop) st
          in if st2 = [] then Inr []
             else (case with_dep_sec l (dropna st2) of
                     Inl e \<Rightarrow> Inl e
                   | Inr st3 \<Rightarrow>
                       let now_sec = now_service_seconds d;
                           up = upcoming_rows now_sec st3
                       in if up = [] then Inr []
                          else (case merged_frame l active_sids (dtype_of (map st_trip_id st))
                                       tt rs up of
                                  Inl e \<Rightarrow> Inl e
                                | Inr up3 \<Rightarrow>
                                    Inr (map (entry l now_sec)
                                          (collect limit {} [] (sort_values l up3))))))))"

text \<open>A sort by \<open>dep_sec\<close>: the result is ordered and holds the same rows.\<close>

definition sorts_by_dep_sec :: "(named list \<Rightarrow> named list) \<Rightarrow> bool" where
  "sorts_by_dep_sec f \<longleftrightarrow> (\<forall>xs. sorted (map dep_sec (f xs)) \<and> mset (f xs) = mset xs)"

section \<open>Cache refresh\<close>

text \<open>
  What the outside world answers. A download is modelled by its outcome: \<open>fetch_bytes\<close>
  raises or returns bytes, and the bytes are given by what the parser makes of them
  (\<open>zipfile.ZipFile\<close> and \<open>ParseFromString\<close> raise or return). A member of the archive is
  missing (\<open>z.open\<close> raises \<open>KeyError\<close>, which \<open>read_csv\<close> turns into \<open>None\<close>),
  unreadable (\<open>pd.read_csv\<close> raises, and nothing catches it) or the frame that
  \<open>pd.read_csv\<close> returns for it, with its typed cells.
\<close>

datatype 'a member = Missing | Unreadable error | Table 'a

record archive =
  stops_txt :: "stop list member"
  stop_times_txt :: "stop_time list member"
  trips_txt :: "trips_table member"
  routes_txt :: "route list member"
  calendar_txt :: "calendar_table member"
  calendar_dates_txt :: "calendar_date list member"

type_synonym 'a download = "error + (error + 'a)"

fun read_csv :: "'a member \<Rightarrow> error + 'a option" where
  "read_csv Missing = Inr None"
| "read_csv (Unreadable e) = Inl e"
| "read_csv (Table t) = Inr (Some t)"

definition GTFS_REFRESH_SECONDS :: rat where
  "GTFS_REFRESH_SECONDS = 24 * 3600"

definition RT_REFRESH_SECONDS :: rat where
  "RT_REFRESH_SECONDS = 15"

text \<open>
  The six assignments of \<open>ensure_gtfs_loaded\<close>, one after the other on the shared cache:
  an exception leaves the assignments made before it.
\<close>

definition load_tables :: "archive \<Rightarrow> cache \<Rightarrow> error option \<times> cache" where
  "load_tables z c =
     (case read_csv (stops_txt z) of Inl e \<Rightarrow> (Some e, c) | Inr v1 \<Rightarrow>
      let c1 = c\<lparr>stops := v1\<rparr> in
     (case read_csv (stop_times_txt z) of Inl e \<Rightarrow> (Some e, c1) | Inr v2 \<Rightarrow>
      let c2 = c1\<lparr>stop_times := v2\<rparr> in
     (case read_csv (trips_txt z) of Inl e \<Rightarrow> (Some e, c2) | Inr v3 \<Rightarrow>
      let c3 = c2\<lparr>trips := v3\<rparr> in
     (case read_csv (routes_txt z) of Inl e \<Rightarrow> (Some e, c3) | Inr v4 \<Rightarrow>
      let c4 = c3\<lparr>routes := v4\<rparr> in
     (case read_csv (calendar_txt z) of Inl e \<Rightarrow> (Some e, c4) | Inr v5 \<Rightarrow>
      let c5 = c4\<lparr>calendar := v5\<rparr> in
     (case read_csv (calendar_dates_txt z) of Inl e \<Rightarrow> (Some e, c5) | Inr v6 \<Rightarrow>
      (None, c5\<lparr>calendar_dates := v6\<rparr>)))))))"

text \<open>
  The result pairs the exception raised, if any, with the cache as the call leaves it.
\<close>

definition ensure_gtfs_loaded :: "rat \<Rightarrow> archive download \<Rightarrow> cache \<Rightarrow> error option \<times> cache" where
  "ensure_gtfs_loaded now zip_dl c =
     (if stops c \<noteq> None \<and> now - gtfs_loaded_at c < GTFS_REFRESH_SECONDS then (None, c)
      else (case zip_dl of
              Inl e \<Rightarrow> (Some e, c)
            | Inr zbytes \<Rightarrow>
                (case zbytes of
                   Inl e \<Rightarrow> (Some e, c)
                 | Inr z \<Rightarrow>
                     (case load_tables z c of
                        (Some e, c') \<Rightarrow> (Some e, c')
                      | (None, c') \<Rightarrow> (None, c'\<lparr>gtfs_loaded_at := now\<rparr>)))))"

definition ensure_rt_loaded ::
  "rat \<Rightarrow> feed_message download \<Rightarrow> feed_message download \<Rightarrow> cache \<Rightarrow> error option \<times> cache" where
  "ensure_rt_loaded now trips_dl alerts_dl c =
     (if alerts c \<noteq> None \<and> now - rt_loaded_at c < RT_REFRESH_SECONDS then (None, c)
      else (case trips_dl of
              Inl e \<Rightarrow> (Some e, c)
            | Inr trips_bin \<Rightarrow>
                (case alerts_dl of
                   Inl e \<Rightarrow> (Some e, c)
                 | Inr alerts_bin \<Rightarrow>
                     (case trips_bin of
                        Inl e \<Rightarrow> (Some e, c)
                      | Inr tu \<Rightarrow>
                          (case alerts_bin of
                             Inl e \<Rightarrow> (Some e, c)
                           | Inr al \<Rightarrow>
                               (None, c\<lparr>trip_updates := Some tu, alerts := Some al,
                                        rt_loaded_at := now\<rparr>))))))"

section \<open>Display\<close>

text \<open>What one request meets: the clocks and the answers of the three feeds.\<close>

record world =
  time_gtfs :: rat
  gtfs_zip :: "archive download"
  time_rt :: rat
  rt_trips :: "feed_message download"
  rt_alerts :: "feed_message download"
  local_time :: local_now

record response =
  title :: ustr
  lines :: "ustr list"
  ticker :: ustr

text \<open>\<open>while len(arrivals) < 3: arrivals.append("--")\<close>.\<close>

definition pad :: "ustr list \<Rightarrow> ustr list" where
  "pad arrivals = arrivals @ replicate (3 - length arrivals) (ustr ''--'')"

text \<open>
  \<open>display\<close>: the response, or the exception that leaves the handler, with the cache
  after the request. The padded list has at least three entries, so the three reads
  are in range.
\<close>

definition display ::
  "lib \<Rightarrow> world \<Rightarrow> cache \<Rightarrow> ustr \<Rightarrow> ustr \<Rightarrow> ustr option \<Rightarrow> (error + response) \<times> cache" where
  "display l w c stop ttl route =
     (case ensure_gtfs_loaded (time_gtfs w) (gtfs_zip w) c of
        (Some e, c1) \<Rightarrow> (Inl e, c1)
      | (None, c1) \<Rightarrow>
     (case ensure_rt_loaded (time_rt w) (rt_trips w) (rt_alerts w) c1 of
        (Some e, c2) \<Rightarrow> (Inl e, c2)
      | (None, c2) \<Rightarrow>
     (case next_scheduled_arrivals_for_stop l c2 (local_time w) stop 3 of
        Inl e \<Rightarrow> (Inl e, c2)
      | Inr arrivals \<Rightarrow>
          let arrivals = pad arrivals
          in (Inr \<lparr>title = ttl,
                   lines = [ttl, arrivals ! 0, arrivals ! 1, arrivals ! 2],
                   ticker = get_alert_text l c2 route 160\<rparr>, c2))))"

section \<open>The library on ASCII text and small numbers\<close>

text \<open>
  An instance of the library functions for the examples: it agrees with Python and
  pandas on ASCII text, on integers of magnitude below \<open>2^53\<close> and on floats of
  integral value there, and the examples use nothing else. \<open>ascii_int\<close> is \<open>int(s)\<close>:
  ASCII whitespace around, one sign, decimal digits with single underscores between
  digits.
\<close>

definition ascii_lower :: "ustr \<Rightarrow> ustr" where
  "ascii_lower s = map (\<lambda>c. if 65 \<le> c \<and> c \<le> 90 then c + 32 else c) s"

definition is_digit :: "nat \<Rightarrow> bool" where
  "is_digit c \<longleftrightarrow> 48 \<le> c \<and> c \<le> 57"

fun digits :: "nat \<Rightarrow> ustr \<Rightarrow> nat option" where
  "digits acc [] = Some acc"
| "digits acc [c] = (if is_digit c then Some (10 * acc + (c - 48)) else None)"
| "digits acc (c # d # ds) =
     (if is_digit c then digits (10 * acc + (c - 48)) (d # ds)
      else if c = 95 \<and> is_digit d then digits (10 * acc + (d - 48)) ds
      else None)"

definition unsigned :: "ustr \<Rightarrow> nat option" where
  "unsigned s = (case s of [] \<Rightarrow> None | c # cs \<Rightarrow> if is_digit c then digits 0 s else None)"

definition ascii_space :: "nat \<Rightarrow> bool" where
  "ascii_space c \<longleftrightarrow> (9 \<le> c \<and> c \<le> 13) \<or> c = 32"

definition ascii_int :: "ustr \<Rightarrow> int option" where
  "ascii_int s =
     (case rev (dropWhile ascii_space (rev (dropWhile ascii_space s))) of
        [] \<Rightarrow> None
      | c # cs \<Rightarrow>
          (if c = 45 then map_option (\<lambda>n. - int n) (unsigned cs)
           else if c = 43 then map_option int (unsigned cs)
           else map_option int (unsigned (c # cs))))"

definition integral_str :: "rat \<Rightarrow> ustr" where
  "integral_str x = str_int \<lfloor>x\<rfloor> @ ustr ''.0''"

definition truncate :: "rat \<Rightarrow> int" where
  "truncate x = (if 0 \<le> x then \<lfloor>x\<rfloor> else \<lceil>x\<rceil>)"

definition ascii_lib :: lib where
  "ascii_lib = \<lparr>str_lower = ascii_lower, int_str = ascii_int, float_str = integral_str,
     float_of_int = of_int, int_of_float = truncate,
     to_numeric = (\<lambda>s. map_option of_int (ascii_int s)),
     sort_values = sort_key dep_sec\<rparr>"

section \<open>Example snapshots\<close>

text \<open>Two alerts without route selectors: one with a header, one with a description only.\<close>

definition two_alerts :: cache where
  "two_alerts = Cache\<lparr>alerts := Some
     [\<lparr>alert = Some \<lparr>informed_entity = [], header_text = [ustr ''Detour on J St''],
                       description_text = []\<rparr>\<rparr>,
      \<lparr>alert = Some \<lparr>informed_entity = [], header_text = [],
                       description_text = [ustr '' Elevator out '']\<rparr>\<rparr>]\<rparr>"

text \<open>An alert whose header has an empty first translation and a second one with text.\<close>

definition blank_first :: alert where
  "blank_first = \<lparr>informed_entity = [], header_text = [[], ustr ''Bus 30 detour''],
                  description_text = [ustr ''Stop closed'']\<rparr>"

text \<open>
  Two routes with text identifiers, so that every column of the table is \<open>object\<close>,
  and an alert for the second.
\<close>

definition routes_table :: "route list" where
  "routes_table =
     [\<lparr>r_route_id = Str (ustr ''R507''), route_short_name = Str (ustr ''Gold''),
       route_long_name = Str (ustr ''Gold Line'')\<rparr>,
      \<lparr>r_route_id = Str (ustr ''R30''), route_short_name = Str (ustr ''30''),
       route_long_name = Str (ustr ''J Street'')\<rparr>]"

definition detour_alert :: alert where
  "detour_alert = \<lparr>informed_entity = [ustr ''R30''], header_text = [ustr ''Detour''],
                   description_text = []\<rparr>"

definition detour_cache :: cache where
  "detour_cache = Cache\<lparr>routes := Some routes_table,
                         alerts := Some [\<lparr>alert = Some detour_alert\<rparr>]\<rparr>"

text \<open>
  Routes whose short names are numbers beside a blank: \<open>read_csv\<close> makes the column
  \<open>float64\<close>, and \<open>astype(str)\<close> renders the 30 as \<open>30.0\<close>.
\<close>

definition numbered_routes :: "route list" where
  "numbered_routes =
     [\<lparr>r_route_id = Str (ustr ''A''), route_short_name = Float 30,
       route_long_name = Str (ustr ''J Street'')\<rparr>,
      \<lparr>r_route_id = Str (ustr ''B''), route_short_name = NaN,
       route_long_name = Str (ustr ''Gold Line'')\<rparr>]"

text \<open>
  Wednesday 4 November 2026 at noon, and a calendar: three services on weekdays (one
  of them expired), one on Saturdays, one on Mondays only and one on Wednesdays only;
  the exceptions remove one service and add another on that day.
\<close>

definition wednesday_noon :: local_now where
  "wednesday_noon = \<lparr>year = 2026, month = 11, day = 4, weekday = Wednesday,
                      hour = 12, minute = 0, second = 0\<rparr>"

definition on_days :: "string list \<Rightarrow> string \<Rightarrow> cell" where
  "on_days days col = (if col \<in> set days then Integer 1 else Integer 0)"

definition weekdays :: "string list" where
  "weekdays = [''monday'', ''tuesday'', ''wednesday'', ''thursday'', ''friday'']"

definition calendar_table :: calendar_table where
  "calendar_table = \<lparr>columns = weekdays @ [''saturday'', ''sunday''],
     rules = [\<lparr>c_service_id = Str (ustr ''WKDY''), start_date = Integer 20260101,
               end_date = Integer 20261231, flag = on_days weekdays\<rparr>,
              \<lparr>c_service_id = Str (ustr ''SCHOOL''), start_date = Integer 20260101,
               end_date = Integer 20261231, flag = on_days weekdays\<rparr>,
              \<lparr>c_service_id = Str (ustr ''OLD''), start_date = Integer 20250101,
               end_date = Integer 20251231, flag = on_days weekdays\<rparr>,
              \<lparr>c_service_id = Str (ustr ''SAT''), start_date = Integer 20260101,
               end_date = Integer 20261231, flag = on_days [''saturday'']\<rparr>,
              \<lparr>c_service_id = Str (ustr ''MON''), start_date = Integer 20260101,
               end_date = Integer 20261231, flag = on_days [''monday'']\<rparr>,
              \<lparr>c_service_id = Str (ustr ''WED''), start_date = Integer 20260101,
               end_date = Integer 20261231, flag = on_days [''wednesday'']\<rparr>]\<rparr>"

definition exceptions_table :: "calendar_date list" where
  "exceptions_table =
     [\<lparr>cd_service_id = Str (ustr ''SCHOOL''), cd_date = Integer 20261104,
       exception_type = Integer 2\<rparr>,
      \<lparr>cd_service_id = Str (ustr ''EVENT''), cd_date = Integer 20261104,
       exception_type = Integer 1\<rparr>,
      \<lparr>cd_service_id = Str (ustr ''WKDY''), cd_date = Integer 20261126,
       exception_type = Integer 2\<rparr>]"

text \<open>
  A calendar file with one weekday service whose end date \<open>2^63\<close> does not fit \<open>int64\<close>:
  the column is read as unsigned and \<open>astype(int)\<close> wraps the date to \<open>-2^63\<close>.
\<close>

definition open_ended_calendar :: calendar_table where
  "open_ended_calendar = \<lparr>columns = weekdays @ [''saturday'', ''sunday''],
     rules = [\<lparr>c_service_id = Str (ustr ''EVER''), start_date = Integer 20260101,
               end_date = Integer (2 ^ 63), flag = on_days weekdays\<rparr>]\<rparr>"

text \<open>A calendar file without the column \<open>wednesday\<close>, with one service of the weekend.\<close>

definition weekend_calendar :: calendar_table where
  "weekend_calendar = \<lparr>columns = [''saturday'', ''sunday''],
     rules = [\<lparr>c_service_id = Str (ustr ''WEEKEND''), start_date = Integer 20260101,
               end_date = Integer 20261231, flag = on_days [''saturday'', ''sunday'']\<rparr>]\<rparr>"

text \<open>
  A schedule around noon. At stop 1111 route Gold leaves on the weekday service at
  11:50, 12:03, 12:09 (the stop time is there twice), 13:10 and 23:00, and route 30
  on the Saturday service at 12:05; at stop 2222 only route 30 leaves, at 12:05. The
  stop identifiers are integers, all other identifiers are texts.
\<close>

definition city_stop_times :: "stop_time list" where
  "city_stop_times =
     [\<lparr>st_trip_id = Str (ustr ''T3''), st_stop_id = Integer 1111,
       arrival_time = Str (ustr ''13:10:00''), departure_time = Str (ustr ''13:10:00'')\<rparr>,
      \<lparr>st_trip_id = Str (ustr ''T0''), st_stop_id = Integer 1111,
       arrival_time = Str (ustr ''11:50:00''), departure_time = Str (ustr ''11:50:00'')\<rparr>,
      \<lparr>st_trip_id = Str (ustr ''T1''), st_stop_id = Integer 1111,
       arrival_time = Str (ustr ''12:03:00''), departure_time = NaN\<rparr>,
      \<lparr>st_trip_id = Str (ustr ''S1''), st_stop_id = Integer 1111,
       arrival_time = Str (ustr ''12:05:00''), departure_time = Str (ustr ''12:05:00'')\<rparr>,
      \<lparr>st_trip_id = Str (ustr ''T2''), st_stop_id = Integer 1111,
       arrival_time = Str (ustr ''12:08:30''), departure_time = Str (ustr ''12:09:00'')\<rparr>,
      \<lparr>st_trip_id = Str (ustr ''T2''), st_stop_id = Integer 1111,
       arrival_time = Str (ustr ''12:08:30''), departure_time = Str (ustr ''12:09:00'')\<rparr>,
      \<lparr>st_trip_id = Str (ustr ''L9''), st_stop_id = Integer 1111,
       arrival_time = Str (ustr ''23:00:00''), departure_time = Str (ustr ''23:00:00'')\<rparr>,
      \<lparr>st_trip_id = Str (ustr ''S2''), st_stop_id = Integer 2222,
       arrival_time = Str (ustr ''12:05:00''), departure_time = Str (ustr ''12:05:00'')\<rparr>]"

definition weekday_trip :: "string \<Rightarrow> trip" where
  "weekday_trip t = \<lparr>t_trip_id = Str (ustr t), t_route_id = Str (ustr ''R507''),
                      t_service_id = Str (ustr ''WKDY'')\<rparr>"

definition saturday_trip :: "string \<Rightarrow> trip" where
  "saturday_trip t = \<lparr>t_trip_id = Str (ustr t), t_route_id = Str (ustr ''R30''),
                       t_service_id = Str (ustr ''SAT'')\<rparr>"

definition city_trips :: trips_table where
  "city_trips = \<lparr>has_service_id = True, trip_rows =
     [weekday_trip ''T0'', weekday_trip ''T1'', weekday_trip ''T2'', weekday_trip ''T3'',
      weekday_trip ''L9'', saturday_trip ''S1'', saturday_trip ''S2'']\<rparr>"

text \<open>The schedule without calendar files, and with them.\<close>

definition city_cache :: cache where
  "city_cache = Cache\<lparr>stop_times := Some city_stop_times, trips := Some city_trips,
                       routes := Some routes_table\<rparr>"

definition calendar_cache :: cache where
  "calendar_cache = city_cache\<lparr>calendar := Some calendar_table,
                                calendar_dates := Some exceptions_table\<rparr>"

text \<open>
  The same schedule with integer route identifiers in \<open>trips.txt\<close>, where the routes
  table has texts: the columns \<open>route_id\<close> are \<open>int64\<close> and \<open>object\<close>.
\<close>

definition numbered_trips :: trips_table where
  "numbered_trips = \<lparr>has_service_id = True, trip_rows =
     map (\<lambda>t. t\<lparr>t_route_id := Integer 507\<rparr>) (trip_rows city_trips)\<rparr>"

text \<open>
  The stop times of stop 1111 with their seconds, as \<open>with_dep_sec\<close> gives them, and
  the rows that the window from noon keeps, merged with the trips.
\<close>

definition city_rows :: "upcoming list" where
  "city_rows = [\<lparr>trip_id = Str (ustr ''T3''), dep_sec = 47400\<rparr>,
                \<lparr>trip_id = Str (ustr ''T0''), dep_sec = 42600\<rparr>,
                \<lparr>trip_id = Str (ustr ''T1''), dep_sec = 43380\<rparr>,
                \<lparr>trip_id = Str (ustr ''S1''), dep_sec = 43500\<rparr>,
                \<lparr>trip_id = Str (ustr ''T2''), dep_sec = 43740\<rparr>,
                \<lparr>trip_id = Str (ustr ''T2''), dep_sec = 43740\<rparr>,
                \<lparr>trip_id = Str (ustr ''L9''), dep_sec = 82800\<rparr>]"

definition weekday_row :: "string \<Rightarrow> int \<Rightarrow> joined" where
  "weekday_row t s = \<lparr>trip_id = Str (ustr t), dep_sec = s, route_id = Str (ustr ''R507''),
                       service_id = Str (ustr ''WKDY'')\<rparr>"

definition saturday_row :: "string \<Rightarrow> int \<Rightarrow> joined" where
  "saturday_row t s = \<lparr>trip_id = Str (ustr t), dep_sec = s, route_id = Str (ustr ''R30''),
                        service_id = Str (ustr ''SAT'')\<rparr>"

definition city_joined :: "joined list" where
  "city_joined = [weekday_row ''T3'' 47400, weekday_row ''T1'' 43380, saturday_row ''S1'' 43500,
                  weekday_row ''T2'' 43740, weekday_row ''T2'' 43740]"

text \<open>One departure before noon and one more than four hours after it.\<close>

definition late_rows :: "upcoming list" where
  "late_rows = [\<lparr>trip_id = Str (ustr ''T0''), dep_sec = 43000\<rparr>,
                \<lparr>trip_id = Str (ustr ''T9''), dep_sec = 80000\<rparr>]"

text \<open>
  A schedule whose service identifiers are integers. The stop time of trip X9 has no
  trip in \<open>trips.txt\<close>, so the merge fills its \<open>service_id\<close> with NaN and the column
  becomes \<open>float64\<close>: the service 1 is rendered \<open>1.0\<close> and is not found in the active
  set, which holds \<open>1\<close>.
\<close>

definition numbered_services :: cache where
  "numbered_services = Cache\<lparr>
     stop_times := Some
       [\<lparr>st_trip_id = Str (ustr ''A1''), st_stop_id = Integer 3333,
         arrival_time = Str (ustr ''12:04:00''), departure_time = Str (ustr ''12:04:00'')\<rparr>,
        \<lparr>st_trip_id = Str (ustr ''X9''), st_stop_id = Integer 3333,
         arrival_time = Str (ustr ''12:07:00''), departure_time = Str (ustr ''12:07:00'')\<rparr>],
     trips := Some \<lparr>has_service_id = True, trip_rows =
       [\<lparr>t_trip_id = Str (ustr ''A1''), t_route_id = Str (ustr ''R507''),
         t_service_id = Integer 1\<rparr>,
        \<lparr>t_trip_id = Str (ustr ''B2''), t_route_id = Str (ustr ''R30''),
         t_service_id = Integer 2\<rparr>]\<rparr>,
     routes := Some routes_table,
     calendar := Some \<lparr>columns = weekdays @ [''saturday'', ''sunday''],
       rules = [\<lparr>c_service_id = Integer 1, start_date = Integer 20260101,
                 end_date = Integer 20261231, flag = on_days weekdays\<rparr>]\<rparr>\<rparr>"

text \<open>
  An archive with the example schedule and calendar, and a request at noon that
  finds it upstream, with one alert for route R30; and a request that finds the
  static feed unreachable.
\<close>

definition city_archive :: archive where
  "city_archive = \<lparr>stops_txt = Table [\<lparr>stop_id = Integer 1111, stop_name = Str (ustr ''39th St'')\<rparr>],
     stop_times_txt = Table city_stop_times, trips_txt = Table city_trips,
     routes_txt = Table routes_table, calendar_txt = Table calendar_table,
     calendar_dates_txt = Table exceptions_table\<rparr>"

definition noon_world :: world where
  "noon_world = \<lparr>time_gtfs = 1000, gtfs_zip = Inr (Inr city_archive), time_rt = 1001,
     rt_trips = Inr (Inr []), rt_alerts = Inr (Inr [\<lparr>alert = Some detour_alert\<rparr>]),
     local_time = wednesday_noon\<rparr>"

definition offline_world :: world where
  "offline_world = noon_world\<lparr>gtfs_zip := Inl TransportError\<rparr>"

text \<open>
  A cache loaded more than a day ago, and an archive whose \<open>stops.txt\<close> reads and whose
  \<open>stop_times.txt\<close> does not.
\<close>

definition stale_cache :: cache where
  "stale_cache = city_cache\<lparr>stops := Some [\<lparr>stop_id = Integer 1111,
                                              stop_name = Str (ustr ''39th St'')\<rparr>]\<rparr>"

definition broken_archive :: archive where
  "broken_archive = city_archive\<lparr>
     stops_txt := Table [\<lparr>stop_id = Integer 1111, stop_name = Str (ustr ''39th Street'')\<rparr>],
     stop_times_txt := Unreadable ParserError\<rparr>"

section \<open>The alert ticker\<close>

lemma alert_msgs_eq:
  "alert_msgs allowed feed =
     filter (\<lambda>t. t \<noteq> []) (map alert_txt
       (filter (\<lambda>a. alert_applies_to_routes a allowed) (List.map_filter alert feed)))"
  by (induction feed) (auto simp: Let_def split: option.splits)

lemma slice_to_nonneg: "0 \<le> n \<Longrightarrow> slice_to n s = take (nat n) s"
  by (simp add: slice_to_def)

text \<open>
  C9. For a bound \<open>max_len\<close> that is not negative, \<open>get_alert_text\<close> is \<open>No alerts\<close> when
  no alert snapshot is loaded or no kept alert yields a text; otherwise the texts are
  joined with \<open>" | "\<close>, and a joined string longer than \<open>max_len\<close> is cut to its first
  \<open>max_len\<close> characters followed by one ellipsis, while a shorter one is returned as it is.
\<close>

theorem get_alert_text_truncates:
  assumes "0 \<le> max_len"
  shows "get_alert_text l c route_filter max_len =
     (case alerts c of
        None \<Rightarrow> ustr ''No alerts''
      | Some feed \<Rightarrow>
          let msgs = filter (\<lambda>t. t \<noteq> []) (map alert_txt
                (filter (\<lambda>a. alert_applies_to_routes a
                             (route_ids_for_short_name l (routes c) route_filter))
                   (List.map_filter alert feed)));
              out = join (ustr '' | '') msgs
          in if msgs = [] then ustr ''No alerts''
             else if int (length out) > max_len then take (nat max_len) out @ [ellipsis]
             else out)"
  using assms
  by (auto simp: get_alert_text_def alert_msgs_eq slice_to_nonneg Let_def split: option.splits)

theorem get_alert_text_truncates_witness:
  "(0::int) \<le> 10 \<and>
   get_alert_text ascii_lib two_alerts None 10 = ustr ''Detour on '' @ [ellipsis] \<and>
   get_alert_text ascii_lib two_alerts None 160 = ustr ''Detour on J St | Elevator out''"
  using get_alert_text_truncates [of 10 ascii_lib two_alerts None]
    get_alert_text_truncates [of 160 ascii_lib two_alerts None]
  by (simp add: two_alerts_def Cache_def route_ids_for_short_name_def
      alert_applies_to_routes_def alert_txt_def strip_def is_space_def ustr_def)

lemma strip_Nil: "strip [] = []"
  by (simp add: strip_def)

text \<open>
  C8, as the claim states it, fails: the header of \<open>blank_first\<close> has a non-empty
  translation and the alert has a description, yet the alert yields no text, because
  only the first translation of the header is read.
\<close>

theorem alert_first_translation_counterexample:
  "alert_txt blank_first = [] \<and>
   alert_msgs None [\<lparr>alert = Some blank_first\<rparr>] = [] \<and>
   get_alert_text ascii_lib (Cache\<lparr>alerts := Some [\<lparr>alert = Some blank_first\<rparr>]\<rparr>) None 160
     = ustr ''No alerts''"
  by (simp add: blank_first_def alert_txt_def strip_def get_alert_text_def Cache_def
      route_ids_for_short_name_def alert_applies_to_routes_def)

text \<open>
  C8, amended. The texts collected are, in feed order, those of the kept alerts that
  are not empty, where the text of an alert is the first translation of its header,
  stripped of surrounding whitespace, when the header has a translation, else the
  stripped first translation of its description when that has one, else empty. Later
  translations are never read, and the description is read only when the header has
  no translation.
\<close>

theorem alert_text_selection:
  "alert_msgs allowed feed =
     filter (\<lambda>t. t \<noteq> []) (map alert_txt
       (filter (\<lambda>a. alert_applies_to_routes a allowed) (List.map_filter alert feed))) \<and>
   alert_txt a =
     strip (case header_text a of h # _ \<Rightarrow> h
            | [] \<Rightarrow> (case description_text a of d # _ \<Rightarrow> d | [] \<Rightarrow> []))"
  by (simp add: alert_msgs_eq alert_txt_def strip_Nil split: list.splits)

theorem alert_text_selection_witness:
  "alert_msgs None (the (alerts two_alerts)) = [ustr ''Detour on J St'', ustr ''Elevator out''] \<and>
   alert_txt blank_first = []"
  using alert_text_selection [of None "the (alerts two_alerts)" blank_first]
  by (simp add: two_alerts_def blank_first_def Cache_def alert_applies_to_routes_def
      alert_txt_def strip_def is_space_def ustr_def)

section \<open>The route filter\<close>

text \<open>The definitions that evaluate the library instance on the examples.\<close>

lemmas lib_defs = ascii_lib_def ascii_lower_def ascii_int_def ascii_space_def unsigned_def
  is_digit_def integral_str_def truncate_def astype_str_def str_int_def strip_def
  is_space_def ustr_def

text \<open>
  C7, as the claim states it, fails: with no routes table in the cache the filter
  \<open>NoSuchRoute\<close> matches no route, yet it resolves to "no filter" and the alert is shown.
  And the fallback on the route identifier is not an exact match: \<open>r30\<close> is no short
  name and differs from the identifier \<open>R30\<close>, yet it resolves to that route.
\<close>

theorem no_routes_table_counterexample:
  "route_ids_for_short_name ascii_lib None (Some (ustr ''NoSuchRoute'')) = None \<and>
   get_alert_text ascii_lib (Cache\<lparr>alerts := Some [\<lparr>alert = Some detour_alert\<rparr>]\<rparr>)
     (Some (ustr ''NoSuchRoute'')) 160 = ustr ''Detour'' \<and>
   route_ids_for_short_name ascii_lib (routes detour_cache) (Some (ustr ''r30''))
     = Some {ustr ''R30''} \<and>
   get_alert_text ascii_lib detour_cache (Some (ustr ''r30'')) 160 = ustr ''Detour''"
  by (simp add: detour_alert_def detour_cache_def routes_table_def alert_txt_def
      get_alert_text_def Cache_def route_ids_for_short_name_def
      alert_applies_to_routes_def slice_to_def lib_defs)

lemma alert_msgs_empty_filter: "alert_msgs (Some {}) feed = []"
  by (induction feed) (auto simp: alert_applies_to_routes_def list_ex_iff split: option.splits)

text \<open>
  C7, amended. Without a filter, without a routes table, with an empty routes table or
  with a filter that is blank, no filter applies. Otherwise the filter, stripped and
  lower-cased, is compared with the short names as \<open>astype(str)\<close> renders them,
  stripped and lower-cased; when none is equal, with the lower-cased renderings of the
  route identifiers; the result is the set of the rendered identifiers of the matching
  routes, empty when nothing matches. With the empty set no alert matches, and
  \<open>get_alert_text\<close> is \<open>No alerts\<close>.
\<close>

theorem route_filter_resolution:
  "route_ids_for_short_name l rts None = None \<and>
   (rts = None \<or> rts = Some [] \<or> name = [] \<or> str_lower l (strip name) = [] \<longrightarrow>
      route_ids_for_short_name l rts (Some name) = None) \<and>
   (rs \<noteq> [] \<and> name \<noteq> [] \<and> str_lower l (strip name) \<noteq> [] \<longrightarrow>
      route_ids_for_short_name l (Some rs) (Some name) =
        Some (let by_short = (\<lambda>r. astype_str l (r_route_id r)) `
                {r \<in> set rs. str_lower l (strip (astype_str l (route_short_name r)))
                                = str_lower l (strip name)};
                  by_id = (\<lambda>r. astype_str l (r_route_id r)) `
                {r \<in> set rs. str_lower l (astype_str l (r_route_id r))
                                = str_lower l (strip name)}
              in if by_short \<noteq> {} then by_short else by_id)) \<and>
   (route_ids_for_short_name l (routes c) route_filter = Some {} \<longrightarrow>
      get_alert_text l c route_filter max_len = ustr ''No alerts'')"
proof (intro conjI impI)
  show "route_ids_for_short_name l rts None = None"
    by (simp add: route_ids_for_short_name_def)
  show "route_ids_for_short_name l rts (Some name) = None"
    if "rts = None \<or> rts = Some [] \<or> name = [] \<or> str_lower l (strip name) = []"
    using that by (auto simp: route_ids_for_short_name_def Let_def split: option.splits)
  show "get_alert_text l c route_filter max_len = ustr ''No alerts''"
    if "route_ids_for_short_name l (routes c) route_filter = Some {}"
    using that by (simp add: get_alert_text_def alert_msgs_empty_filter split: option.splits)
next
  assume a: "rs \<noteq> [] \<and> name \<noteq> [] \<and> str_lower l (strip name) \<noteq> []"
  define sn where "sn = str_lower l (strip name)"
  define m1 where
    "m1 = filter (\<lambda>r. str_lower l (strip (astype_str l (route_short_name r))) = sn) rs"
  define m2 where "m2 = filter (\<lambda>r. str_lower l (astype_str l (r_route_id r)) = sn) rs"
  have r: "route_ids_for_short_name l (Some rs) (Some name) =
      Some (set (map (\<lambda>r. astype_str l (r_route_id r)) (if m1 = [] then m2 else m1)))"
    using a unfolding route_ids_for_short_name_def Let_def sn_def m1_def m2_def
    by (simp add: filter_empty_conv)
  have s1: "set (map (\<lambda>r. astype_str l (r_route_id r)) m1) =
      (\<lambda>r. astype_str l (r_route_id r)) `
        {r \<in> set rs. str_lower l (strip (astype_str l (route_short_name r))) = sn}"
    unfolding m1_def by auto
  have s2: "set (map (\<lambda>r. astype_str l (r_route_id r)) m2) =
      (\<lambda>r. astype_str l (r_route_id r)) `
        {r \<in> set rs. str_lower l (astype_str l (r_route_id r)) = sn}"
    unfolding m2_def by auto
  have e: "(m1 = []) = ((\<lambda>r. astype_str l (r_route_id r)) `
       {r \<in> set rs. str_lower l (strip (astype_str l (route_short_name r))) = sn} = {})"
    unfolding m1_def by (auto simp: filter_empty_conv)
  show "route_ids_for_short_name l (Some rs) (Some name) =
        Some (let by_short = (\<lambda>r. astype_str l (r_route_id r)) `
                {r \<in> set rs. str_lower l (strip (astype_str l (route_short_name r)))
                                = str_lower l (strip name)};
                  by_id = (\<lambda>r. astype_str l (r_route_id r)) `
                {r \<in> set rs. str_lower l (astype_str l (r_route_id r))
                                = str_lower l (strip name)}
              in if by_short \<noteq> {} then by_short else by_id)"
    unfolding r Let_def sn_def [symmetric]
    by (cases "m1 = []") (use e s1 s2 in auto)
qed

theorem route_filter_resolution_witness:
  "routes_table \<noteq> [] \<and> ustr ''NoSuchRoute'' \<noteq> [] \<and>
   str_lower ascii_lib (strip (ustr ''NoSuchRoute'')) \<noteq> [] \<and>
   route_ids_for_short_name ascii_lib (routes detour_cache) (Some (ustr ''NoSuchRoute''))
     = Some {} \<and>
   get_alert_text ascii_lib detour_cache (Some (ustr ''NoSuchRoute'')) 160 = ustr ''No alerts'' \<and>
   route_ids_for_short_name ascii_lib (Some []) (Some (ustr ''NoSuchRoute'')) = None \<and>
   route_ids_for_short_name ascii_lib (Some routes_table) (Some (ustr '' gold ''))
     = Some {ustr ''R507''} \<and>
   route_ids_for_short_name ascii_lib (Some routes_table) (Some (ustr ''r30''))
     = Some {ustr ''R30''} \<and>
   route_ids_for_short_name ascii_lib (Some numbered_routes) (Some (ustr ''30'')) = Some {} \<and>
   route_ids_for_short_name ascii_lib (Some numbered_routes) (Some (ustr ''30.0''))
     = Some {ustr ''A''}"
  using route_filter_resolution [of ascii_lib "Some []" "ustr ''NoSuchRoute''" routes_table
      detour_cache "Some (ustr ''NoSuchRoute'')" 160]
  by (simp add: routes_table_def numbered_routes_def detour_cache_def Cache_def
      route_ids_for_short_name_def lib_defs dec.simps)

section \<open>The service calendar\<close>

lemmas calendar_defs = calendar_cache_def city_cache_def Cache_def calendar_table_def
  exceptions_table_def weekend_calendar_def open_ended_calendar_def wednesday_noon_def weekdays_def on_days_def
  active_service_ids_for_today_def calendar_services_def in_range_rules_def today_rows_def
  today_int_def to_int_def wrap64_def Let_def

lemma apply_exceptions_mem:
  "sid \<in> apply_exceptions l rows active \<longleftrightarrow>
     (case rev [r \<leftarrow> rows. astype_str l (cd_service_id r) = sid \<and>
                  (to_int l (exception_type r) = 1 \<or> to_int l (exception_type r) = 2)] of
        [] \<Rightarrow> sid \<in> active
      | r # _ \<Rightarrow> to_int l (exception_type r) = 1)"
proof (induction rows arbitrary: active)
  case Nil
  then show ?case by simp
next
  case (Cons r rs)
  show ?case
    by (simp add: Cons.IH Let_def split: list.splits)
qed

lemma calendar_services_mem:
  "sid \<in> calendar_services l cal d \<longleftrightarrow>
     (\<exists>t r. cal = Some t \<and> r \<in> set (rules t) \<and> astype_str l (c_service_id r) = sid \<and>
            to_int l (start_date r) \<le> today_int d \<and> today_int d \<le> to_int l (end_date r) \<and>
            (weekday_col (weekday d) \<in> set (columns t) \<longrightarrow>
               to_int l (flag r (weekday_col (weekday d))) = 1))"
  by (auto simp: calendar_services_def in_range_rules_def Let_def split: option.splits)

lemma weekday_col_cases:
  "weekday_col w =
     (case w of Monday \<Rightarrow> ''monday'' | Tuesday \<Rightarrow> ''tuesday'' | Wednesday \<Rightarrow> ''wednesday''
      | Thursday \<Rightarrow> ''thursday'' | Friday \<Rightarrow> ''friday'' | Saturday \<Rightarrow> ''saturday''
      | Sunday \<Rightarrow> ''sunday'')"
  by (cases w) simp_all

text \<open>
  C4, as the claim states it, fails: the calendar file \<open>weekend_calendar\<close> has no column
  \<open>wednesday\<close>, and on a Wednesday its service of Saturdays and Sundays is active,
  because without the column the flags are not read.
\<close>

theorem missing_weekday_column_counterexample:
  "''wednesday'' \<notin> set (columns weekend_calendar) \<and>
   active_service_ids_for_today ascii_lib (Cache\<lparr>calendar := Some weekend_calendar\<rparr>)
     wednesday_noon = {ustr ''WEEKEND''}"
  by (simp add: calendar_defs lib_defs)

text \<open>
  C4, amended. A service identifier is active today exactly when the last exception
  dated today that names it (added, type 1, or removed, type 2, in row order) is an
  addition, or, when no such exception exists, when some calendar rule for it has
  today within its date range and, if the calendar file has the column of today's
  weekday, has the flag 1 in that column; where the file lacks the column every rule
  in range counts. So exceptions are applied after the rules and override them: an
  addition inserts an identifier that no rule gives, and a removal deletes one that
  the rules give. Dates, flags and types are read as \<open>to_int\<close> reads them, and
  identifiers as \<open>astype(str)\<close> renders them.
\<close>

theorem active_service_ids_membership:
  "sid \<in> active_service_ids_for_today l c d \<longleftrightarrow>
     (let col = (case weekday d of
                   Monday \<Rightarrow> ''monday'' | Tuesday \<Rightarrow> ''tuesday'' | Wednesday \<Rightarrow> ''wednesday''
                 | Thursday \<Rightarrow> ''thursday'' | Friday \<Rightarrow> ''friday''
                 | Saturday \<Rightarrow> ''saturday'' | Sunday \<Rightarrow> ''sunday'')
      in case rev [e \<leftarrow> (case calendar_dates c of None \<Rightarrow> [] | Some cald \<Rightarrow> cald).
                     to_int l (cd_date e) = today_int d \<and> astype_str l (cd_service_id e) = sid \<and>
                     (to_int l (exception_type e) = 1 \<or> to_int l (exception_type e) = 2)] of
           e # _ \<Rightarrow> to_int l (exception_type e) = 1
         | [] \<Rightarrow>
             (\<exists>t r. calendar c = Some t \<and> r \<in> set (rules t) \<and>
                    astype_str l (c_service_id r) = sid \<and>
                    to_int l (start_date r) \<le> today_int d \<and>
                    today_int d \<le> to_int l (end_date r) \<and>
                    (col \<in> set (columns t) \<longrightarrow> to_int l (flag r col) = 1)))"
proof (cases "calendar_dates c")
  case None
  then show ?thesis
    using calendar_services_mem [of sid l "calendar c" d]
    by (simp add: active_service_ids_for_today_def weekday_col_cases Let_def)
next
  case (Some cald)
  have "[e \<leftarrow> today_rows l cald d. astype_str l (cd_service_id e) = sid \<and>
                  (to_int l (exception_type e) = 1 \<or> to_int l (exception_type e) = 2)]
       = [e \<leftarrow> cald. to_int l (cd_date e) = today_int d \<and> astype_str l (cd_service_id e) = sid \<and>
                  (to_int l (exception_type e) = 1 \<or> to_int l (exception_type e) = 2)]"
    by (simp add: today_rows_def conj_commute conj_left_commute)
  moreover have "today_rows l [] d = []" by (simp add: today_rows_def)
  ultimately show ?thesis
    using Some calendar_services_mem [of sid l "calendar c" d]
    by (cases "cald = []")
       (simp_all add: active_service_ids_for_today_def apply_exceptions_mem weekday_col_cases
          Let_def split: list.splits)
qed

theorem active_service_ids_membership_witness:
  "ustr ''SCHOOL'' \<notin> active_service_ids_for_today ascii_lib calendar_cache wednesday_noon \<and>
   ustr ''EVENT'' \<in> active_service_ids_for_today ascii_lib calendar_cache wednesday_noon \<and>
   ustr ''MON'' \<notin> active_service_ids_for_today ascii_lib calendar_cache wednesday_noon \<and>
   active_service_ids_for_today ascii_lib calendar_cache wednesday_noon
     = {ustr ''WKDY'', ustr ''WED'', ustr ''EVENT''} \<and>
   active_service_ids_for_today ascii_lib (Cache\<lparr>calendar := Some open_ended_calendar\<rparr>)
     wednesday_noon = {}"
  using active_service_ids_membership [of "ustr ''SCHOOL''" ascii_lib calendar_cache wednesday_noon]
  by (auto simp: calendar_defs lib_defs)

section \<open>The arrival query\<close>

text \<open>The definitions that evaluate the query on the example schedule.\<close>

lemmas query_defs = city_stop_times_def city_trips_def weekday_trip_def saturday_trip_def
  numbered_trips_def routes_table_def next_scheduled_arrivals_for_stop_def merged_frame_def
  dropna_def dep_def gtfs_time_to_seconds_def now_service_seconds_def upcoming_rows_def
  merge_trips_def merge_routes_def merge_keys_ok_def keq_def upcast_def upcast_dtype_def
  dtype_of_def is_str_def is_int_def service_filter_def entry_def mins_def route_name_def
  or_str_def truthy_def dec.simps

subsection \<open>The loop that collects the rows\<close>

lemma collect_eq:
  "collect limit seen rows xs =
     rows @ take (max 1 (nat (limit - int (length rows)))) (first_seen seen xs)"
proof (induction xs arbitrary: seen rows)
  case Nil
  then show ?case by simp
next
  case (Cons r rs)
  show ?case
  proof (cases "dep_sec r \<in> seen")
    case True
    then show ?thesis by (simp add: Cons.IH)
  next
    case False
    show ?thesis
    proof (cases "int (length rows) + 1 \<ge> limit")
      case True
      then have "max 1 (nat (limit - int (length rows))) = 1" by simp
      with True False show ?thesis by (simp add: Let_def)
    next
      case f: False
      define k where "k = nat (limit - int (length rows)) - 1"
      from f have k: "max 1 (nat (limit - int (length rows))) = Suc k"
        and k': "max 1 (nat (limit - int (length (rows @ [r])))) = k"
        unfolding k_def by (simp_all add: max_def) linarith+
      with f False show ?thesis by (simp add: Let_def Cons.IH)
    qed
  qed
qed

lemma first_seen_set: "set (first_seen seen xs) \<subseteq> set xs"
  by (induction xs arbitrary: seen) auto

lemma first_seen_dep_notin: "r \<in> set (first_seen seen xs) \<Longrightarrow> dep_sec r \<notin> seen"
  by (induction xs arbitrary: seen) (auto split: if_splits)

lemma first_seen_distinct: "distinct (map dep_sec (first_seen seen xs))"
  by (induction xs arbitrary: seen) (auto dest: first_seen_dep_notin)

lemma first_seen_sorted:
  "sorted (map dep_sec xs) \<Longrightarrow> sorted (map dep_sec (first_seen seen xs))"
proof (induction xs arbitrary: seen)
  case Nil
  then show ?case by simp
next
  case (Cons r rs)
  then show ?case using first_seen_set [of _ rs] by auto
qed

lemma first_seen_first:
  "r \<in> set (first_seen seen xs) \<Longrightarrow> find (\<lambda>x. dep_sec x = dep_sec r) xs = Some r"
proof (induction xs arbitrary: seen)
  case Nil
  then show ?case by simp
next
  case (Cons x xs)
  then show ?case
    by (auto split: if_splits dest: first_seen_dep_notin)
qed

lemma collect_first_seen:
  "collect limit {} [] xs = take (max 1 (nat limit)) (first_seen {} xs)"
  by (simp add: collect_eq)

lemma collect_nonempty: "xs \<noteq> [] \<Longrightarrow> collect limit {} [] xs \<noteq> []"
proof -
  assume "xs \<noteq> []"
  then obtain a as where xs: "xs = a # as" by (cases xs) auto
  obtain k where k: "max 1 (nat limit) = Suc k" by (cases "max 1 (nat limit)") auto
  show ?thesis unfolding collect_first_seen k xs by simp
qed

lemma collect_length: "1 \<le> limit \<Longrightarrow> int (length (collect limit {} [] xs)) \<le> limit"
proof -
  assume "1 \<le> limit"
  then have "max (Suc 0) (nat limit) = nat limit" by simp
  with \<open>1 \<le> limit\<close> show ?thesis by (simp add: collect_first_seen)
qed

lemma mins_nonneg: "0 \<le> mins now r"
  by (simp add: mins_def)

lemma dec_digits: "set (dec n) \<subseteq> {48..57} \<and> dec n \<noteq> []"
proof (induction n rule: dec.induct)
  case (1 n)
  show ?case
  proof (cases "n < 10")
    case True
    then show ?thesis by (subst dec.simps, subst (2) dec.simps) auto
  next
    case False
    have "n mod 10 < 10" by simp
    then have "48 + n mod 10 \<in> {48..57}" by (simp del: mod_less_divisor)
    with False 1 show ?thesis by (subst dec.simps, subst (2) dec.simps) auto
  qed
qed

lemma entry_eq:
  "entry l now r = route_name l r @ ustr '' '' @ dec (nat (max 0 ((dep_sec r - now) div 60)))"
  by (simp add: entry_def str_int_def mins_def)

text \<open>The stable insertion sort of the library is one sort by \<open>dep_sec\<close>.\<close>

lemma sort_key_sorts_by_dep_sec: "sorts_by_dep_sec (sort_key dep_sec)"
  by (simp add: sorts_by_dep_sec_def)

lemma ascii_lib_sorts: "sorts_by_dep_sec (sort_values ascii_lib)"
  by (simp add: ascii_lib_def sorts_by_dep_sec_def)

lemma sorts_nonempty: "sorts_by_dep_sec f \<Longrightarrow> xs \<noteq> [] \<Longrightarrow> f xs \<noteq> []"
  by (metis mset_zero_iff sorts_by_dep_sec_def)

subsection \<open>The merges keep every row of the left frame\<close>

lemma concat_map_nonempty:
  "up \<noteq> [] \<Longrightarrow> (\<And>u. u \<in> set up \<Longrightarrow> f u \<noteq> []) \<Longrightarrow> concat (map f up) \<noteq> []"
  by (cases up) auto

lemma merge_trips_nonempty:
  assumes "merge_trips l ld ts up = Inr (rd, up1)" and "up \<noteq> []"
  shows "up1 \<noteq> []"
proof -
  from assms(1) have "up1 = concat (map (\<lambda>u.
               (case filter (\<lambda>t. keq l (trip_id u) (t_trip_id t)) ts of
                  [] \<Rightarrow> [\<lparr>trip_id = trip_id u, dep_sec = dep_sec u, route_id = NaN,
                          service_id = NaN\<rparr>]
                | ms \<Rightarrow> map (\<lambda>t. \<lparr>trip_id = trip_id u, dep_sec = dep_sec u,
                     route_id = upcast l (list_ex (\<lambda>u. list_all (\<lambda>t. \<not> keq l (trip_id u) (t_trip_id t)) ts) up)
                                  (dtype_of (map t_route_id ts)) (t_route_id t),
                     service_id = upcast l (list_ex (\<lambda>u. list_all (\<lambda>t. \<not> keq l (trip_id u) (t_trip_id t)) ts) up)
                                  (dtype_of (map t_service_id ts)) (t_service_id t)\<rparr>) ms)) up)"
    by (simp add: merge_trips_def Let_def split: if_splits)
  then show ?thesis
    by (simp only:) (rule concat_map_nonempty [OF assms(2)], simp split: list.splits)
qed

lemma merge_routes_nonempty:
  assumes "merge_routes l ld rs up = Inr up3" and "up \<noteq> []"
  shows "up3 \<noteq> []"
proof -
  from assms(1) have "up3 = concat (map (\<lambda>u.
               (case filter (\<lambda>r. keq l (route_id u) (r_route_id r)) rs of
                  [] \<Rightarrow> [\<lparr>trip_id = trip_id u, dep_sec = dep_sec u, route_id = route_id u,
                          service_id = service_id u, name_short = NaN, name_long = NaN\<rparr>]
                | ms \<Rightarrow> map (\<lambda>r. \<lparr>trip_id = trip_id u, dep_sec = dep_sec u,
                     route_id = route_id u, service_id = service_id u,
                     name_short = upcast l (list_ex (\<lambda>u. list_all (\<lambda>r. \<not> keq l (route_id u) (r_route_id r)) rs) up)
                                  (dtype_of (map route_short_name rs)) (route_short_name r),
                     name_long = upcast l (list_ex (\<lambda>u. list_all (\<lambda>r. \<not> keq l (route_id u) (r_route_id r)) rs) up)
                                  (dtype_of (map route_long_name rs)) (route_long_name r)\<rparr>) ms)) up)"
    by (simp add: merge_routes_def Let_def split: if_splits)
  then show ?thesis
    by (simp only:) (rule concat_map_nonempty [OF assms(2)], simp split: list.splits)
qed

lemma service_filter_eq:
  "service_filter l active_sids has_col up =
     (if active_sids \<noteq> {} \<and> has_col \<and>
         [r \<leftarrow> up. astype_str l (service_id r) \<in> active_sids] \<noteq> []
      then [r \<leftarrow> up. astype_str l (service_id r) \<in> active_sids]
      else up)"
  by (simp add: service_filter_def Let_def)

lemma service_filter_nonempty: "up \<noteq> [] \<Longrightarrow> service_filter l active_sids has_col up \<noteq> []"
  by (simp add: service_filter_eq)

lemma merged_frame_nonempty:
  assumes "merged_frame l active_sids ld tt rs up = Inr up3" and "up \<noteq> []"
  shows "up3 \<noteq> []"
proof -
  from assms(1) obtain rd up1 where
    m: "merge_trips l ld (trip_rows tt) up = Inr (rd, up1)" and
    r: "merge_routes l rd rs (service_filter l active_sids (has_service_id tt) up1) = Inr up3"
    by (auto simp: merged_frame_def split: sum.splits)
  from merge_trips_nonempty [OF m assms(2)] have "up1 \<noteq> []" .
  then have "service_filter l active_sids (has_service_id tt) up1 \<noteq> []"
    by (rule service_filter_nonempty)
  with r show ?thesis by (rule merge_routes_nonempty)
qed

subsection \<open>The query by its stages\<close>

lemma query_stages:
  assumes "stop_times c = Some st" "trips c = Some tt" "routes c = Some rs"
    and "with_dep_sec l (dropna [r \<leftarrow> st. astype_str l (st_stop_id r) = stop]) = Inr st3"
  shows "next_scheduled_arrivals_for_stop l c d stop limit =
     (if upcoming_rows (now_service_seconds d) st3 = [] then Inr []
      else (case merged_frame l (active_service_ids_for_today l c d) (dtype_of (map st_trip_id st))
                   tt rs (upcoming_rows (now_service_seconds d) st3) of
              Inl e \<Rightarrow> Inl e
            | Inr up3 \<Rightarrow>
                Inr (map (entry l (now_service_seconds d))
                      (collect limit {} [] (sort_values l up3)))))"
proof (cases "[r \<leftarrow> st. astype_str l (st_stop_id r) = stop] = []")
  case True
  with assms(4) have "st3 = []" by (simp add: dropna_def)
  with True assms(1-3) show ?thesis
    by (simp add: next_scheduled_arrivals_for_stop_def upcoming_rows_def)
next
  case False
  with assms show ?thesis
    by (simp add: next_scheduled_arrivals_for_stop_def Let_def)
qed

lemma query_returns:
  assumes "next_scheduled_arrivals_for_stop l c d stop limit = Inr out"
  shows "out = [] \<or>
     (\<exists>st tt rs st3 up3.
        stop_times c = Some st \<and> trips c = Some tt \<and> routes c = Some rs \<and>
        with_dep_sec l (dropna [r \<leftarrow> st. astype_str l (st_stop_id r) = stop]) = Inr st3 \<and>
        upcoming_rows (now_service_seconds d) st3 \<noteq> [] \<and>
        merged_frame l (active_service_ids_for_today l c d) (dtype_of (map st_trip_id st))
          tt rs (upcoming_rows (now_service_seconds d) st3) = Inr up3 \<and>
        out = map (entry l (now_service_seconds d)) (collect limit {} [] (sort_values l up3)))"
  using assms
  by (auto simp: next_scheduled_arrivals_for_stop_def Let_def
      split: option.splits if_splits sum.splits)

lemma query_entries:
  assumes "next_scheduled_arrivals_for_stop l c d stop limit = Inr arr" and "1 \<le> limit"
  shows "int (length arr) \<le> limit \<and>
         (\<forall>a \<in> set arr. \<exists>row. a = entry l (now_service_seconds d) row)"
  using query_returns [OF assms(1)] assms(2) collect_length [OF assms(2)]
  by auto

subsection \<open>The window\<close>

text \<open>
  C3. The window keeps exactly the rows with \<open>dep_sec\<close> from now to four hours later;
  when there is none, exactly the rows with \<open>dep_sec\<close> not before now; no kept row lies
  before now. When the three tables are loaded and the times of the stop convert, the
  query returns the empty list when the window keeps nothing, and otherwise merges,
  sorts and renders the kept rows, or raises what a merge raises.
\<close>

theorem upcoming_rows_window:
  "upcoming_rows now st =
     (if [r \<leftarrow> st. now \<le> dep_sec r \<and> dep_sec r \<le> now + 4 * 3600] \<noteq> []
      then [r \<leftarrow> st. now \<le> dep_sec r \<and> dep_sec r \<le> now + 4 * 3600]
      else [r \<leftarrow> st. now \<le> dep_sec r]) \<and>
   (\<forall>r \<in> set (upcoming_rows now st). now \<le> dep_sec r) \<and>
   (stop_times c = Some sts \<and> trips c = Some tt \<and> routes c = Some rs \<and>
    with_dep_sec l (dropna [r \<leftarrow> sts. astype_str l (st_stop_id r) = stop]) = Inr st3 \<longrightarrow>
      next_scheduled_arrivals_for_stop l c d stop limit =
        (if upcoming_rows (now_service_seconds d) st3 = [] then Inr []
         else (case merged_frame l (active_service_ids_for_today l c d)
                      (dtype_of (map st_trip_id sts)) tt rs
                      (upcoming_rows (now_service_seconds d) st3) of
                 Inl e \<Rightarrow> Inl e
               | Inr up3 \<Rightarrow>
                   Inr (map (entry l (now_service_seconds d))
                         (collect limit {} [] (sort_values l up3))))))"
proof (intro conjI impI)
  show "upcoming_rows now st =
     (if [r \<leftarrow> st. now \<le> dep_sec r \<and> dep_sec r \<le> now + 4 * 3600] \<noteq> []
      then [r \<leftarrow> st. now \<le> dep_sec r \<and> dep_sec r \<le> now + 4 * 3600]
      else [r \<leftarrow> st. now \<le> dep_sec r])"
    by (simp add: upcoming_rows_def Let_def)
  show "\<forall>r \<in> set (upcoming_rows now st). now \<le> dep_sec r"
    by (auto simp: upcoming_rows_def Let_def split: if_splits)
next
  assume "stop_times c = Some sts \<and> trips c = Some tt \<and> routes c = Some rs \<and>
    with_dep_sec l (dropna [r \<leftarrow> sts. astype_str l (st_stop_id r) = stop]) = Inr st3"
  then show "next_scheduled_arrivals_for_stop l c d stop limit =
        (if upcoming_rows (now_service_seconds d) st3 = [] then Inr []
         else (case merged_frame l (active_service_ids_for_today l c d)
                      (dtype_of (map st_trip_id sts)) tt rs
                      (upcoming_rows (now_service_seconds d) st3) of
                 Inl e \<Rightarrow> Inl e
               | Inr up3 \<Rightarrow>
                   Inr (map (entry l (now_service_seconds d))
                         (collect limit {} [] (sort_values l up3)))))"
    using query_stages by blast
qed

lemma city_dep:
  "with_dep_sec ascii_lib
     (dropna [r \<leftarrow> city_stop_times. astype_str ascii_lib (st_stop_id r) = ustr ''1111''])
   = Inr city_rows"
  by (simp add: city_rows_def query_defs lib_defs)

lemma city_window:
  "upcoming_rows 43200 city_rows =
     [city_rows ! 0, city_rows ! 2, city_rows ! 3, city_rows ! 4, city_rows ! 5]"
  by (simp add: city_rows_def upcoming_rows_def)

theorem upcoming_rows_window_witness:
  "stop_times city_cache = Some city_stop_times \<and> trips city_cache = Some city_trips \<and>
   routes city_cache = Some routes_table \<and>
   with_dep_sec ascii_lib
     (dropna [r \<leftarrow> city_stop_times. astype_str ascii_lib (st_stop_id r) = ustr ''1111''])
     = Inr city_rows \<and>
   upcoming_rows 43200 city_rows =
     [city_rows ! 0, city_rows ! 2, city_rows ! 3, city_rows ! 4, city_rows ! 5] \<and>
   upcoming_rows 43200 late_rows = [late_rows ! 1] \<and>
   upcoming_rows 43200 [late_rows ! 0] = [] \<and>
   next_scheduled_arrivals_for_stop ascii_lib city_cache wednesday_noon (ustr ''1111'') 3
     = Inr [ustr ''Gold 3'', ustr ''30 5'', ustr ''Gold 9''] \<and>
   next_scheduled_arrivals_for_stop ascii_lib (city_cache\<lparr>trips := Some numbered_trips\<rparr>)
     wednesday_noon (ustr ''1111'') 3 = Inl ValueError"
  using upcoming_rows_window [of 43200 city_rows city_cache city_stop_times city_trips
      routes_table ascii_lib "ustr ''1111''" city_rows wednesday_noon 3]
  by (simp add: city_cache_def Cache_def wednesday_noon_def city_rows_def late_rows_def
      active_service_ids_for_today_def calendar_services_def query_defs lib_defs)

subsection \<open>The service filter\<close>

lemma query_filter_stage:
  assumes "stop_times c = Some st" "trips c = Some tt" "routes c = Some rs"
    and "with_dep_sec l (dropna [r \<leftarrow> st. astype_str l (st_stop_id r) = stop]) = Inr st3"
    and "upcoming_rows (now_service_seconds d) st3 \<noteq> []"
    and "merge_trips l (dtype_of (map st_trip_id st)) (trip_rows tt)
           (upcoming_rows (now_service_seconds d) st3) = Inr (rd, up1)"
  shows "next_scheduled_arrivals_for_stop l c d stop limit =
     (case merge_routes l rd rs
             (service_filter l (active_service_ids_for_today l c d) (has_service_id tt) up1) of
        Inl e \<Rightarrow> Inl e
      | Inr up3 \<Rightarrow>
          Inr (map (entry l (now_service_seconds d)) (collect limit {} [] (sort_values l up3))))"
  using assms by (simp add: query_stages [OF assms(1-4)] merged_frame_def)

lemma query_not_emptied:
  assumes "stop_times c = Some st" "trips c = Some tt" "routes c = Some rs"
    and "with_dep_sec l (dropna [r \<leftarrow> st. astype_str l (st_stop_id r) = stop]) = Inr st3"
    and "upcoming_rows (now_service_seconds d) st3 \<noteq> []"
    and "sorts_by_dep_sec (sort_values l)"
    and "next_scheduled_arrivals_for_stop l c d stop limit = Inr out"
  shows "out \<noteq> []"
proof -
  from assms(7) obtain up3 where
    m: "merged_frame l (active_service_ids_for_today l c d) (dtype_of (map st_trip_id st)) tt rs
          (upcoming_rows (now_service_seconds d) st3) = Inr up3" and
    o: "out = map (entry l (now_service_seconds d)) (collect limit {} [] (sort_values l up3))"
    using assms(5) by (auto simp: query_stages [OF assms(1-4)] split: sum.splits)
  from merged_frame_nonempty [OF m assms(5)] have "up3 \<noteq> []" .
  then have "sort_values l up3 \<noteq> []" by (rule sorts_nonempty [OF assms(6)])
  then have "collect limit {} [] (sort_values l up3) \<noteq> []" by (rule collect_nonempty)
  with o show ?thesis by simp
qed

text \<open>
  C5. In the arrival query, once the merge with \<open>trips\<close> has given the rows \<open>up1\<close>: the
  rows are replaced by those on a service of the active set of today exactly when
  that set is not empty, the frame has the \<open>service_id\<close> column and some row would
  remain; with an empty active set, or when no row would remain, the unfiltered rows
  go on to the merge with \<open>routes\<close>. In either case a query that returns, for a sort
  that keeps the rows, returns some entry.
\<close>

theorem service_filter_guard:
  "(stop_times c = Some st \<and> trips c = Some tt \<and> routes c = Some rs \<and>
    with_dep_sec l (dropna [r \<leftarrow> st. astype_str l (st_stop_id r) = stop]) = Inr st3 \<and>
    upcoming_rows (now_service_seconds d) st3 \<noteq> [] \<and>
    merge_trips l (dtype_of (map st_trip_id st)) (trip_rows tt)
      (upcoming_rows (now_service_seconds d) st3) = Inr (rd, up1) \<longrightarrow>
    next_scheduled_arrivals_for_stop l c d stop limit =
      (case merge_routes l rd rs
              (if active_service_ids_for_today l c d \<noteq> {} \<and> has_service_id tt \<and>
                  [r \<leftarrow> up1. astype_str l (service_id r) \<in> active_service_ids_for_today l c d]
                    \<noteq> []
               then [r \<leftarrow> up1. astype_str l (service_id r) \<in> active_service_ids_for_today l c d]
               else up1) of
         Inl e \<Rightarrow> Inl e
       | Inr up3 \<Rightarrow>
           Inr (map (entry l (now_service_seconds d))
                 (collect limit {} [] (sort_values l up3)))) \<and>
    (sorts_by_dep_sec (sort_values l) \<and>
     next_scheduled_arrivals_for_stop l c d stop limit = Inr out \<longrightarrow> out \<noteq> []))"
proof (intro impI conjI)
  assume a: "stop_times c = Some st \<and> trips c = Some tt \<and> routes c = Some rs \<and>
    with_dep_sec l (dropna [r \<leftarrow> st. astype_str l (st_stop_id r) = stop]) = Inr st3 \<and>
    upcoming_rows (now_service_seconds d) st3 \<noteq> [] \<and>
    merge_trips l (dtype_of (map st_trip_id st)) (trip_rows tt)
      (upcoming_rows (now_service_seconds d) st3) = Inr (rd, up1)"
  then show "next_scheduled_arrivals_for_stop l c d stop limit =
      (case merge_routes l rd rs
              (if active_service_ids_for_today l c d \<noteq> {} \<and> has_service_id tt \<and>
                  [r \<leftarrow> up1. astype_str l (service_id r) \<in> active_service_ids_for_today l c d]
                    \<noteq> []
               then [r \<leftarrow> up1. astype_str l (service_id r) \<in> active_service_ids_for_today l c d]
               else up1) of
         Inl e \<Rightarrow> Inl e
       | Inr up3 \<Rightarrow>
           Inr (map (entry l (now_service_seconds d))
                 (collect limit {} [] (sort_values l up3))))"
    using query_filter_stage [of c st tt rs l stop st3 d rd up1 limit]
    by (simp add: service_filter_eq)
  assume "sorts_by_dep_sec (sort_values l) \<and>
     next_scheduled_arrivals_for_stop l c d stop limit = Inr out"
  with a show "out \<noteq> []"
    using query_not_emptied [of c st tt rs l stop st3 d limit out] by simp
qed

lemma city_merge:
  "merge_trips ascii_lib (dtype_of (map st_trip_id city_stop_times)) (trip_rows city_trips)
     (upcoming_rows 43200 city_rows) = Inr (Object, city_joined)"
  by (simp add: city_rows_def city_joined_def weekday_row_def saturday_row_def query_defs
      lib_defs)

theorem service_filter_guard_witness:
  "stop_times calendar_cache = Some city_stop_times \<and> trips calendar_cache = Some city_trips \<and>
   routes calendar_cache = Some routes_table \<and>
   with_dep_sec ascii_lib
     (dropna [r \<leftarrow> city_stop_times. astype_str ascii_lib (st_stop_id r) = ustr ''1111''])
     = Inr city_rows \<and>
   upcoming_rows (now_service_seconds wednesday_noon) city_rows \<noteq> [] \<and>
   merge_trips ascii_lib (dtype_of (map st_trip_id city_stop_times)) (trip_rows city_trips)
     (upcoming_rows (now_service_seconds wednesday_noon) city_rows) = Inr (Object, city_joined) \<and>
   sorts_by_dep_sec (sort_values ascii_lib) \<and>
   active_service_ids_for_today ascii_lib calendar_cache wednesday_noon
     = {ustr ''WKDY'', ustr ''WED'', ustr ''EVENT''} \<and>
   next_scheduled_arrivals_for_stop ascii_lib calendar_cache wednesday_noon (ustr ''1111'') 3
     = Inr [ustr ''Gold 3'', ustr ''Gold 9'', ustr ''Gold 70''] \<and>
   next_scheduled_arrivals_for_stop ascii_lib calendar_cache wednesday_noon (ustr ''2222'') 3
     = Inr [ustr ''30 5''] \<and>
   next_scheduled_arrivals_for_stop ascii_lib city_cache wednesday_noon (ustr ''1111'') 3
     = Inr [ustr ''Gold 3'', ustr ''30 5'', ustr ''Gold 9''] \<and>
   active_service_ids_for_today ascii_lib numbered_services wednesday_noon = {ustr ''1''} \<and>
   next_scheduled_arrivals_for_stop ascii_lib numbered_services wednesday_noon (ustr ''3333'') 3
     = Inr [ustr ''Gold 4'', ustr ''nan 7'']"
  using service_filter_guard [of calendar_cache city_stop_times city_trips routes_table
      ascii_lib "ustr ''1111''" city_rows wednesday_noon Object city_joined 3
      "[ustr ''Gold 3'', ustr ''Gold 9'', ustr ''Gold 70'']"]
    ascii_lib_sorts
  by (auto simp: city_rows_def city_joined_def weekday_row_def
      saturday_row_def numbered_services_def calendar_defs query_defs lib_defs)

subsection \<open>Absent tables\<close>

text \<open>
  C10. Without the stop times, the trips or the routes table the query returns the
  empty list and raises nothing. Without both calendar tables the active set is
  empty and the rows that the merge with \<open>trips\<close> gives go unfiltered to the merge
  with \<open>routes\<close>, so that a query that returns, for a sort that keeps the rows, returns
  some entry whenever the window kept a row.
\<close>

theorem absent_tables:
  "(stop_times c = None \<or> trips c = None \<or> routes c = None \<longrightarrow>
      next_scheduled_arrivals_for_stop l c d stop limit = Inr []) \<and>
   (calendar c = None \<and> calendar_dates c = None \<longrightarrow>
      active_service_ids_for_today l c d = {} \<and>
      (stop_times c = Some st \<and> trips c = Some tt \<and> routes c = Some rs \<and>
       with_dep_sec l (dropna [r \<leftarrow> st. astype_str l (st_stop_id r) = stop]) = Inr st3 \<and>
       upcoming_rows (now_service_seconds d) st3 \<noteq> [] \<and>
       merge_trips l (dtype_of (map st_trip_id st)) (trip_rows tt)
         (upcoming_rows (now_service_seconds d) st3) = Inr (rd, up1) \<longrightarrow>
       next_scheduled_arrivals_for_stop l c d stop limit =
         (case merge_routes l rd rs up1 of
            Inl e \<Rightarrow> Inl e
          | Inr up3 \<Rightarrow>
              Inr (map (entry l (now_service_seconds d))
                    (collect limit {} [] (sort_values l up3)))) \<and>
       (sorts_by_dep_sec (sort_values l) \<and>
        next_scheduled_arrivals_for_stop l c d stop limit = Inr out \<longrightarrow> out \<noteq> [])))"
proof (intro conjI impI)
  assume "stop_times c = None \<or> trips c = None \<or> routes c = None"
  then show "next_scheduled_arrivals_for_stop l c d stop limit = Inr []"
    by (auto simp: next_scheduled_arrivals_for_stop_def split: option.splits)
next
  assume n: "calendar c = None \<and> calendar_dates c = None"
  then show e: "active_service_ids_for_today l c d = {}"
    by (simp add: active_service_ids_for_today_def calendar_services_def)
  assume a: "stop_times c = Some st \<and> trips c = Some tt \<and> routes c = Some rs \<and>
       with_dep_sec l (dropna [r \<leftarrow> st. astype_str l (st_stop_id r) = stop]) = Inr st3 \<and>
       upcoming_rows (now_service_seconds d) st3 \<noteq> [] \<and>
       merge_trips l (dtype_of (map st_trip_id st)) (trip_rows tt)
         (upcoming_rows (now_service_seconds d) st3) = Inr (rd, up1)"
  then show "next_scheduled_arrivals_for_stop l c d stop limit =
         (case merge_routes l rd rs up1 of
            Inl e \<Rightarrow> Inl e
          | Inr up3 \<Rightarrow>
              Inr (map (entry l (now_service_seconds d))
                    (collect limit {} [] (sort_values l up3))))"
    using query_filter_stage [of c st tt rs l stop st3 d rd up1 limit]
    by (simp add: service_filter_eq e)
  assume "sorts_by_dep_sec (sort_values l) \<and>
        next_scheduled_arrivals_for_stop l c d stop limit = Inr out"
  with a show "out \<noteq> []"
    using query_not_emptied [of c st tt rs l stop st3 d limit out] by simp
qed

theorem absent_tables_witness:
  "routes (city_cache\<lparr>routes := None\<rparr>) = None \<and>
   next_scheduled_arrivals_for_stop ascii_lib (city_cache\<lparr>routes := None\<rparr>)
     wednesday_noon (ustr ''1111'') 3 = Inr [] \<and>
   calendar city_cache = None \<and> calendar_dates city_cache = None \<and>
   stop_times city_cache = Some city_stop_times \<and> trips city_cache = Some city_trips \<and>
   routes city_cache = Some routes_table \<and>
   with_dep_sec ascii_lib
     (dropna [r \<leftarrow> city_stop_times. astype_str ascii_lib (st_stop_id r) = ustr ''1111''])
     = Inr city_rows \<and>
   upcoming_rows (now_service_seconds wednesday_noon) city_rows \<noteq> [] \<and>
   merge_trips ascii_lib (dtype_of (map st_trip_id city_stop_times)) (trip_rows city_trips)
     (upcoming_rows (now_service_seconds wednesday_noon) city_rows) = Inr (Object, city_joined) \<and>
   sorts_by_dep_sec (sort_values ascii_lib) \<and>
   active_service_ids_for_today ascii_lib city_cache wednesday_noon = {} \<and>
   next_scheduled_arrivals_for_stop ascii_lib city_cache wednesday_noon (ustr ''1111'') 3
     = Inr [ustr ''Gold 3'', ustr ''30 5'', ustr ''Gold 9'']"
  using absent_tables [of "city_cache\<lparr>routes := None\<rparr>" ascii_lib wednesday_noon
      "ustr ''1111''" 3 city_stop_times city_trips routes_table city_rows Object city_joined
      "[]"]
    absent_tables [of city_cache ascii_lib wednesday_noon "ustr ''1111''" 3 city_stop_times
      city_trips routes_table city_rows Object city_joined
      "[ustr ''Gold 3'', ustr ''30 5'', ustr ''Gold 9'']"]
    ascii_lib_sorts
  by (simp add: city_rows_def city_joined_def weekday_row_def
      saturday_row_def calendar_defs query_defs lib_defs)

subsection \<open>Order, duplicates and the limit\<close>

lemma first_seen_take_sorted:
  "sorted (map dep_sec xs) \<Longrightarrow> sorted (map dep_sec (take n (first_seen {} xs)))"
  using first_seen_sorted [of xs "{}"]
  by (simp add: take_map [symmetric])

text \<open>
  C2. For a limit of at least 1, which is what the display asks for, and a sort that
  orders by \<open>dep_sec\<close>: a query that returns, returns the renderings of the first
  \<open>limit\<close> first occurrences of the sorted frame, which is empty or the sorted result
  of the merges. So the result has at most \<open>limit\<close> entries, in ascending order of
  \<open>dep_sec\<close>, one per \<open>dep_sec\<close>, each rendering the first sorted row of its \<open>dep_sec\<close> as
  the route label, a space and the minutes \<open>max(0, floor((dep_sec - now_sec) / 60))\<close>
  in decimal.
\<close>

theorem arrivals_sorted_distinct:
  assumes "sorts_by_dep_sec (sort_values l)" and "1 \<le> limit"
    and "next_scheduled_arrivals_for_stop l c d stop limit = Inr out"
  shows "\<exists>frame.
     (frame = [] \<or>
      (\<exists>st tt rs st3 up3.
         stop_times c = Some st \<and> trips c = Some tt \<and> routes c = Some rs \<and>
         with_dep_sec l (dropna [r \<leftarrow> st. astype_str l (st_stop_id r) = stop]) = Inr st3 \<and>
         merged_frame l (active_service_ids_for_today l c d) (dtype_of (map st_trip_id st))
           tt rs (upcoming_rows (now_service_seconds d) st3) = Inr up3 \<and>
         frame = sort_values l up3)) \<and>
     sorted (map dep_sec frame) \<and>
     out = map (entry l (now_service_seconds d)) (take (nat limit) (first_seen {} frame)) \<and>
     int (length out) \<le> limit \<and>
     sorted (map dep_sec (take (nat limit) (first_seen {} frame))) \<and>
     distinct (map dep_sec (take (nat limit) (first_seen {} frame))) \<and>
     (\<forall>r \<in> set (take (nat limit) (first_seen {} frame)).
        find (\<lambda>x. dep_sec x = dep_sec r) frame = Some r \<and>
        entry l (now_service_seconds d) r =
          route_name l r @ ustr '' '' @
          dec (nat (max 0 ((dep_sec r - now_service_seconds d) div 60))))"
proof -
  from assms(2) have m: "max (Suc 0) (nat limit) = nat limit" by simp
  have props: "sorted (map dep_sec frame) \<Longrightarrow>
     int (length (map (entry l (now_service_seconds d)) (take (nat limit) (first_seen {} frame))))
       \<le> limit \<and>
     sorted (map dep_sec (take (nat limit) (first_seen {} frame))) \<and>
     distinct (map dep_sec (take (nat limit) (first_seen {} frame))) \<and>
     (\<forall>r \<in> set (take (nat limit) (first_seen {} frame)).
        find (\<lambda>x. dep_sec x = dep_sec r) frame = Some r \<and>
        entry l (now_service_seconds d) r =
          route_name l r @ ustr '' '' @
          dec (nat (max 0 ((dep_sec r - now_service_seconds d) div 60))))" for frame
  proof (intro conjI ballI)
    assume s: "sorted (map dep_sec frame)"
    show "int (length (map (entry l (now_service_seconds d))
            (take (nat limit) (first_seen {} frame)))) \<le> limit"
      using assms(2) by simp
    show "sorted (map dep_sec (take (nat limit) (first_seen {} frame)))"
      by (rule first_seen_take_sorted [OF s])
    show "distinct (map dep_sec (take (nat limit) (first_seen {} frame)))"
      using first_seen_distinct [of "{}" frame]
      by (simp add: take_map [symmetric])
    fix r assume "r \<in> set (take (nat limit) (first_seen {} frame))"
    then have "r \<in> set (first_seen {} frame)" by (rule in_set_takeD)
    then show "find (\<lambda>x. dep_sec x = dep_sec r) frame = Some r" by (rule first_seen_first)
    show "entry l (now_service_seconds d) r =
          route_name l r @ ustr '' '' @
          dec (nat (max 0 ((dep_sec r - now_service_seconds d) div 60)))"
      by (rule entry_eq)
  qed
  from query_returns [OF assms(3)] show ?thesis
  proof
    assume "out = []"
    then show ?thesis using assms(2) by (intro exI [of _ "[]"]) simp
  next
    assume "\<exists>st tt rs st3 up3.
        stop_times c = Some st \<and> trips c = Some tt \<and> routes c = Some rs \<and>
        with_dep_sec l (dropna [r \<leftarrow> st. astype_str l (st_stop_id r) = stop]) = Inr st3 \<and>
        upcoming_rows (now_service_seconds d) st3 \<noteq> [] \<and>
        merged_frame l (active_service_ids_for_today l c d) (dtype_of (map st_trip_id st))
          tt rs (upcoming_rows (now_service_seconds d) st3) = Inr up3 \<and>
        out = map (entry l (now_service_seconds d)) (collect limit {} [] (sort_values l up3))"
    then obtain st tt rs st3 up3 where
      f: "stop_times c = Some st \<and> trips c = Some tt \<and> routes c = Some rs \<and>
        with_dep_sec l (dropna [r \<leftarrow> st. astype_str l (st_stop_id r) = stop]) = Inr st3 \<and>
        merged_frame l (active_service_ids_for_today l c d) (dtype_of (map st_trip_id st))
          tt rs (upcoming_rows (now_service_seconds d) st3) = Inr up3" and
      o: "out = map (entry l (now_service_seconds d)) (collect limit {} [] (sort_values l up3))"
      by blast
    have s: "sorted (map dep_sec (sort_values l up3))"
      using assms(1) by (simp add: sorts_by_dep_sec_def)
    have o': "out = map (entry l (now_service_seconds d))
                 (take (nat limit) (first_seen {} (sort_values l up3)))"
      by (simp add: o collect_first_seen m)
    have origin: "sort_values l up3 = [] \<or>
      (\<exists>st tt rs st3 up3'.
         stop_times c = Some st \<and> trips c = Some tt \<and> routes c = Some rs \<and>
         with_dep_sec l (dropna [r \<leftarrow> st. astype_str l (st_stop_id r) = stop]) = Inr st3 \<and>
         merged_frame l (active_service_ids_for_today l c d) (dtype_of (map st_trip_id st))
           tt rs (upcoming_rows (now_service_seconds d) st3) = Inr up3' \<and>
         sort_values l up3 = sort_values l up3')"
      using f by blast
    from props [OF s] have len: "int (length out) \<le> limit"
      and rest: "sorted (map dep_sec (take (nat limit) (first_seen {} (sort_values l up3)))) \<and>
        distinct (map dep_sec (take (nat limit) (first_seen {} (sort_values l up3)))) \<and>
        (\<forall>r \<in> set (take (nat limit) (first_seen {} (sort_values l up3))).
           find (\<lambda>x. dep_sec x = dep_sec r) (sort_values l up3) = Some r \<and>
           entry l (now_service_seconds d) r =
             route_name l r @ ustr '' '' @
             dec (nat (max 0 ((dep_sec r - now_service_seconds d) div 60))))"
      unfolding o' by simp_all
    show ?thesis
      by (rule exI [of _ "sort_values l up3"]) (intro conjI origin s o' len rest)
  qed
qed

theorem arrivals_sorted_distinct_witness:
  "sorts_by_dep_sec (sort_values ascii_lib) \<and> (1::int) \<le> 3 \<and> (1::int) \<le> 2 \<and>
   next_scheduled_arrivals_for_stop ascii_lib calendar_cache wednesday_noon (ustr ''1111'') 3
     = Inr [ustr ''Gold 3'', ustr ''Gold 9'', ustr ''Gold 70''] \<and>
   next_scheduled_arrivals_for_stop ascii_lib city_cache wednesday_noon (ustr ''1111'') 2
     = Inr [ustr ''Gold 3'', ustr ''30 5'']"
  using arrivals_sorted_distinct [of ascii_lib 3 calendar_cache wednesday_noon "ustr ''1111''"
      "[ustr ''Gold 3'', ustr ''Gold 9'', ustr ''Gold 70'']"]
    ascii_lib_sorts
  by (simp add: calendar_defs query_defs lib_defs)

section \<open>The display response\<close>

lemmas display_defs = display_def ensure_gtfs_loaded_def ensure_rt_loaded_def load_tables_def
  noon_world_def offline_world_def city_archive_def GTFS_REFRESH_SECONDS_def
  RT_REFRESH_SECONDS_def pad_def get_alert_text_def route_ids_for_short_name_def
  alert_applies_to_routes_def alert_txt_def detour_alert_def slice_to_def

text \<open>
  C1, as the claim states it, fails: the response has four lines, the title and three
  arrival positions, and positions are padded when fewer than three arrivals exist.
  And not every request has a response: when the static feed cannot be fetched the
  exception leaves the handler.
\<close>

theorem display_four_lines_counterexample:
  "fst (display ascii_lib noon_world Cache (ustr ''2222'') (ustr ''39th St WB'') None) =
     Inr \<lparr>title = ustr ''39th St WB'',
          lines = [ustr ''39th St WB'', ustr ''30 5'', ustr ''--'', ustr ''--''],
          ticker = ustr ''Detour''\<rparr> \<and>
   length (lines (projr (fst (display ascii_lib noon_world Cache (ustr ''2222'')
     (ustr ''39th St WB'') None)))) = 4 \<and>
   display ascii_lib offline_world Cache (ustr ''2222'') (ustr ''39th St WB'') None =
     (Inl TransportError, Cache)"
  by (simp add: display_defs calendar_defs query_defs lib_defs)

lemma pad_length: "length arr \<le> 3 \<Longrightarrow> length (pad arr) = 3"
  by (simp add: pad_def)

lemma nth_three: "length xs = 3 \<Longrightarrow> [xs ! 0, xs ! 1, xs ! 2] = xs"
  by (cases xs; cases "tl xs"; cases "tl (tl xs)") auto

text \<open>
  C1, amended. Whenever \<open>display\<close> returns a response, its \<open>lines\<close> are exactly four
  strings: the title, then the arrivals of the stop (at most three), then \<open>--\<close> for
  each of the three positions that has no arrival. So each of the positions 1, 2, 3 is
  \<open>--\<close> or a route label, a space and the decimal minutes.
\<close>

theorem display_lines:
  assumes "display l w c stop ttl route = (Inr r, c')"
  shows "title r = ttl \<and> length (lines r) = 4 \<and> lines r ! 0 = ttl \<and>
     ticker r = get_alert_text l c' route 160 \<and>
     (\<exists>arr. next_scheduled_arrivals_for_stop l c' (local_time w) stop 3 = Inr arr \<and>
        length arr \<le> 3 \<and>
        lines r = ttl # arr @ replicate (3 - length arr) (ustr ''--'')) \<and>
     (\<forall>i \<in> {1, 2, 3}.
        lines r ! i = ustr ''--'' \<or>
        (\<exists>row. lines r ! i = route_name l row @ ustr '' '' @
                  dec (nat (mins (now_service_seconds (local_time w)) row))))"
proof -
  from assms obtain arr where
    q: "next_scheduled_arrivals_for_stop l c' (local_time w) stop 3 = Inr arr" and
    r: "r = \<lparr>title = ttl, lines = [ttl, pad arr ! 0, pad arr ! 1, pad arr ! 2],
            ticker = get_alert_text l c' route 160\<rparr>"
    by (auto simp: display_def Let_def split: prod.splits option.splits sum.splits)
  from query_entries [OF q] have len: "length arr \<le> 3"
    and e: "\<forall>a \<in> set arr. \<exists>row. a = entry l (now_service_seconds (local_time w)) row"
    by simp_all
  have p: "[pad arr ! 0, pad arr ! 1, pad arr ! 2] = pad arr"
    by (rule nth_three [OF pad_length [OF len]])
  have lines: "lines r = ttl # arr @ replicate (3 - length arr) (ustr ''--'')"
    using p by (simp add: r pad_def)
  have "lines r ! i = ustr ''--'' \<or>
        (\<exists>row. lines r ! i = route_name l row @ ustr '' '' @
                  dec (nat (mins (now_service_seconds (local_time w)) row)))"
    if "i \<in> {1, 2, 3}" for i
  proof -
    from that len have "i - 1 < length (pad arr)" by (auto simp: pad_length)
    then have "pad arr ! (i - 1) \<in> set (pad arr)" by (rule nth_mem)
    moreover have "lines r ! i = pad arr ! (i - 1)"
      using that p by (auto simp: r)
    ultimately have "lines r ! i \<in> set arr \<or> lines r ! i = ustr ''--''"
      by (auto simp: pad_def)
    moreover have "entry l n row = route_name l row @ ustr '' '' @ dec (nat (mins n row))"
      for n row
      using mins_nonneg [of n row] by (simp add: entry_def str_int_def)
    ultimately show ?thesis using e by metis
  qed
  with q len lines show ?thesis by (auto simp: r)
qed

theorem display_lines_witness:
  "display ascii_lib noon_world Cache (ustr ''1111'') (ustr ''39th St WB'')
       (Some (ustr ''30'')) =
     (Inr \<lparr>title = ustr ''39th St WB'',
           lines = [ustr ''39th St WB'', ustr ''Gold 3'', ustr ''Gold 9'', ustr ''Gold 70''],
           ticker = ustr ''Detour''\<rparr>,
      snd (display ascii_lib noon_world Cache (ustr ''1111'') (ustr ''39th St WB'')
       (Some (ustr ''30'')))) \<and>
   fst (display ascii_lib noon_world Cache (ustr ''2222'') (ustr ''39th St WB'')
       (Some (ustr ''Gold''))) =
     Inr \<lparr>title = ustr ''39th St WB'',
          lines = [ustr ''39th St WB'', ustr ''30 5'', ustr ''--'', ustr ''--''],
          ticker = ustr ''No alerts''\<rparr>"
  using display_lines [where l = ascii_lib and w = noon_world and c = Cache
      and stop = "ustr ''1111''" and ttl = "ustr ''39th St WB''" and route = "Some (ustr ''30'')"
      and r = "\<lparr>title = ustr ''39th St WB'',
           lines = [ustr ''39th St WB'', ustr ''Gold 3'', ustr ''Gold 9'', ustr ''Gold 70''],
           ticker = ustr ''Detour''\<rparr>"
      and c' = "snd (display ascii_lib noon_world Cache (ustr ''1111'')
           (ustr ''39th St WB'') (Some (ustr ''30'')))"]
  by (simp add: display_defs calendar_defs query_defs lib_defs)

section \<open>The cache refresh\<close>

text \<open>
  C6, at a refresh in which \<open>stops.txt\<close> reads and \<open>stop_times.txt\<close> does not: the
  exception leaves the handler with the new stops table already in the cache, beside
  the old stop times and the old load time. The snapshot is half replaced.
\<close>

theorem static_refresh_half_updated:
  "ensure_gtfs_loaded 90000 (Inr (Inr broken_archive)) stale_cache =
     (Some ParserError,
      stale_cache\<lparr>stops := Some [\<lparr>stop_id = Integer 1111,
                                    stop_name = Str (ustr ''39th Street'')\<rparr>]\<rparr>) \<and>
   stops (snd (ensure_gtfs_loaded 90000 (Inr (Inr broken_archive)) stale_cache)) \<noteq>
     stops stale_cache \<and>
   stop_times (snd (ensure_gtfs_loaded 90000 (Inr (Inr broken_archive)) stale_cache)) =
     stop_times stale_cache \<and>
   gtfs_loaded_at (snd (ensure_gtfs_loaded 90000 (Inr (Inr broken_archive)) stale_cache)) =
     gtfs_loaded_at stale_cache"
  by (simp add: ensure_gtfs_loaded_def load_tables_def broken_archive_def city_archive_def
      stale_cache_def city_cache_def Cache_def GTFS_REFRESH_SECONDS_def ustr_def)

text \<open>
  The other failures leave the cache as it was: the realtime refresh assigns nothing
  before both messages are fetched and parsed, and replaces both together; the static
  refresh assigns nothing when the download or the archive fails.
\<close>

lemma ensure_rt_loaded_failure:
  "ensure_rt_loaded now trips_dl alerts_dl c = (Some e, c') \<Longrightarrow> c' = c"
  by (auto simp: ensure_rt_loaded_def split: if_splits sum.splits)

lemma ensure_rt_loaded_success:
  "ensure_rt_loaded now trips_dl alerts_dl c = (None, c') \<Longrightarrow>
     c' = c \<or> (\<exists>tu al. trips_dl = Inr (Inr tu) \<and> alerts_dl = Inr (Inr al) \<and>
               c' = c\<lparr>trip_updates := Some tu, alerts := Some al, rt_loaded_at := now\<rparr>)"
  by (auto simp: ensure_rt_loaded_def split: if_splits sum.splits)

lemma ensure_gtfs_loaded_no_archive:
  "zip_dl = Inl e \<or> zip_dl = Inr (Inl e) \<Longrightarrow>
   ensure_gtfs_loaded now zip_dl c = (res, c') \<Longrightarrow> c' = c"
  by (auto simp: ensure_gtfs_loaded_def split: if_splits)

end
